theory Spec2Isabelle
  imports Complex_Main
begin

section \<open>Hypersaline buffer calculator: values, errors, constants\<close>

text \<open>
  The program is \<^verbatim>\<open>buffer_web/app.py\<close>. Its Python floats are modelled by the
  reals: every arithmetic operation is exact, comparisons and signs are those of the
  mathematical values. Integers that the source mixes into float arithmetic (the path
  flags 0/1) are kept as \<open>int\<close> and injected with \<open>real_of_int\<close>.

  A Python exception is a value of \<open>py_error\<close>; a function that can raise returns
  \<open>py_error + 'a\<close>, with \<open>Inl\<close> for the exception.
\<close>

datatype py_error =
    KeyError string
  | TypeError
  | ValueError
  | ZeroDivisionError
  | RuntimeError

text \<open>A value held in a JSON payload or in a solver output row.\<close>

datatype pyval = Num real | Str string | NoneV

definition bind_err :: "py_error + 'a \<Rightarrow> ('a \<Rightarrow> py_error + 'b) \<Rightarrow> py_error + 'b" where
  "bind_err m f = (case m of Inl e \<Rightarrow> Inl e | Inr x \<Rightarrow> f x)"

text \<open>\<^verbatim>\<open>d[k]\<close>: a missing key raises KeyError.\<close>

definition getitem :: "(string \<rightharpoonup> 'a) \<Rightarrow> string \<Rightarrow> py_error + 'a" where
  "getitem d k = (case d k of None \<Rightarrow> Inl (KeyError k) | Some v \<Rightarrow> Inr v)"

text \<open>\<^verbatim>\<open>d.get(k, dflt)\<close>.\<close>

definition get_default :: "(string \<rightharpoonup> 'a) \<Rightarrow> string \<Rightarrow> 'a \<Rightarrow> 'a" where
  "get_default d k dflt = (case d k of None \<Rightarrow> dflt | Some v \<Rightarrow> v)"

text \<open>Float division \<^verbatim>\<open>a / b\<close>: a zero divisor raises ZeroDivisionError.\<close>

definition py_div :: "real \<Rightarrow> real \<Rightarrow> py_error + real" where
  "py_div a b = (if b = 0 then Inl ZeroDivisionError else Inr (a / b))"

text \<open>
  \<^verbatim>\<open>round(x, n)\<close> on a float: the nearest multiple of \<open>10^-n\<close>, a tie going to the
  even neighbour.
\<close>

definition round_half_even :: "real \<Rightarrow> int" where
  "round_half_even y =
     (let f = \<lfloor>y\<rfloor>; d = y - of_int f
      in if d < 1/2 then f else if 1/2 < d then f + 1 else if even f then f else f + 1)"

definition py_round :: "real \<Rightarrow> nat \<Rightarrow> real" where
  "py_round x n = of_int (round_half_even (x * 10 ^ n)) / 10 ^ n"

subsection \<open>Module constants\<close>

definition Q3 :: real where "Q3 = 22.989769"
definition Q4 :: real where "Q4 = 39.0983"
definition Q5 :: real where "Q5 = 6.941"
definition Q6 :: real where "Q6 = 24.305"
definition Q7 :: real where "Q7 = 40.078"
definition Q8 :: real where "Q8 = 32.02"
definition Q9 :: real where "Q9 = 35.453"
definition Q10 :: real where "Q10 = 18.01528"
definition Q11 :: real where "Q11 = 1.0"

definition J3 :: real where "J3 = 95.211"
definition J4 :: real where "J4 = J3 + 6 * Q10"
definition J6 :: real where "J6 = 110.984"
definition J7 :: real where "J7 = J6 + 2 * Q10"
definition J9 :: real where "J9 = 120.366"
definition J10 :: real where "J10 = J9 + 7 * Q10"
definition J12 :: real where "J12 = 142.04"
definition J13 :: real where "J13 = 322.2"
definition D14 :: real where "D14 = 42.394"
definition D16 :: real where "D16 = 58.44"
definition D17 :: real where "D17 = 74.55"

definition CO2_LOG :: real where "CO2_LOG = log 10 0.000426"
definition RF :: int where "RF = 200"

section \<open>Unit converter\<close>

definition calc_water_mass :: "real \<Rightarrow> real \<Rightarrow> pyval \<Rightarrow> real" where
  "calc_water_mass density tds tds_unit =
     (if tds_unit = Str ''g/L''
      then (1000 * density - tds) / 1000
      else (1000 * density - tds * density) / 1000)"

definition to_mmol_kgw :: "real \<Rightarrow> real \<Rightarrow> real \<Rightarrow> py_error + real" where
  "to_mmol_kgw mg_per_L MW water_mass =
     bind_err (py_div mg_per_L water_mass) (\<lambda>q. py_div q MW)"

section \<open>Recipe builder\<close>

text \<open>
  The seven salt molalities \<^verbatim>\<open>C12 .. C18\<close> (mmol/kgw) that \<^verbatim>\<open>build_recipe\<close> and
  \<^verbatim>\<open>build_phreeqc_input\<close> each compute from the ion molalities.
\<close>

record salt_mmol =
  C12 :: real
  C13 :: real
  C14 :: real
  C15 :: real
  C16 :: real
  C17 :: real
  C18 :: real

text \<open>
  The first stage of \<^verbatim>\<open>build_recipe\<close>: the six dictionary reads, the path flags
  \<^verbatim>\<open>A18\<close>, \<^verbatim>\<open>A15\<close> and the clamped salt molalities.
\<close>

definition recipe_salts :: "(string \<rightharpoonup> real) \<Rightarrow> py_error + salt_mmol" where
  "recipe_salts ion_mmol_kgw =
     bind_err (getitem ion_mmol_kgw ''Na'') (\<lambda>C3.
     bind_err (getitem ion_mmol_kgw ''K'') (\<lambda>C4.
     bind_err (getitem ion_mmol_kgw ''Li'') (\<lambda>C5.
     bind_err (getitem ion_mmol_kgw ''Mg'') (\<lambda>C6.
     bind_err (getitem ion_mmol_kgw ''Ca'') (\<lambda>C7.
     bind_err (getitem ion_mmol_kgw ''SO4'') (\<lambda>C8.
       let A18 = (if C8 > C6 then 1 else 0 :: int);
           A15 = (if A18 = 1 then 0 else 1 :: int)
       in Inr \<lparr> C12 = max 0 (C6 - C8 * of_int A15),
                 C13 = max 0 C7,
                 C14 = max 0 C5,
                 C15 = max 0 C8 * of_int A15,
                 C16 = max 0 (C3 - 2 * C8 * of_int A18),
                 C17 = max 0 C4,
                 C18 = max 0 C8 * of_int A18 \<rparr>))))))"

text \<open>The hydration choice: \<^verbatim>\<open>hydration.get(salt_key, 'Anhydrous') == 'Anhydrous'\<close>.\<close>

definition is_anhydrous :: "(string \<rightharpoonup> pyval) \<Rightarrow> string \<Rightarrow> bool" where
  "is_anhydrous hydration salt_key =
     (get_default hydration salt_key (Str ''Anhydrous'') = Str ''Anhydrous'')"

text \<open>The molar masses \<^verbatim>\<open>D12, D13, D15, D18\<close> selected by the hydration choice.\<close>

record salt_mw =
  D12 :: real
  D13 :: real
  D15 :: real
  D18 :: real

definition recipe_mw :: "(string \<rightharpoonup> pyval) \<Rightarrow> salt_mw" where
  "recipe_mw hydration =
     \<lparr> D12 = (if is_anhydrous hydration ''MgCl2'' then J3 else J4),
       D13 = (if is_anhydrous hydration ''CaCl2'' then J6 else J7),
       D15 = (if is_anhydrous hydration ''MgSO4'' then J9 else J10),
       D18 = (if is_anhydrous hydration ''Na2SO4'' then J12 else J13) \<rparr>"

text \<open>
  One entry of the returned dictionary (\<^verbatim>\<open>'mmol'\<close>, \<^verbatim>\<open>'g'\<close>, \<^verbatim>\<open>'mw'\<close>, \<^verbatim>\<open>'form'\<close>),
  and the dictionary itself; its eight keys, written with subscript digits in the
  source, are the fields here.
\<close>

record entry =
  mmol :: real
  gram :: real
  mw :: real
  form :: pyval

record recipe =
  MgCl2 :: entry
  CaCl2 :: entry
  LiCl :: entry
  MgSO4 :: entry
  NaCl :: entry
  KCl :: entry
  Na2SO4 :: entry
  H2O :: entry

definition build_recipe :: "(string \<rightharpoonup> real) \<Rightarrow> (string \<rightharpoonup> pyval) \<Rightarrow> py_error + recipe" where
  "build_recipe ion_mmol_kgw hydration =
     bind_err (recipe_salts ion_mmol_kgw) (\<lambda>s.
       let D = recipe_mw hydration;
           E12 = D12 D * C12 s / 1000;
           E13 = D13 D * C13 s / 1000;
           E14 = D14 * C14 s / 1000;
           E15 = D15 D * C15 s / 1000;
           E16 = D16 * C16 s / 1000;
           E17 = D17 * C17 s / 1000;
           E18 = D18 D * C18 s / 1000;
           J18 = (if is_anhydrous hydration ''MgCl2'' then 0 else 1 :: int);
           J19 = (if is_anhydrous hydration ''CaCl2'' then 0 else 1 :: int);
           J20 = (if is_anhydrous hydration ''MgSO4'' then 0 else 1 :: int);
           J21 = (if is_anhydrous hydration ''Na2SO4'' then 0 else 1 :: int);
           I18 = C12 s * 6 * Q10 / 1000;
           I19 = C13 s * 2 * Q10 / 1000;
           I20 = C15 s * 7 * Q10 / 1000;
           I21 = C18 s * 10 * Q10 / 1000;
           I16 = 1000;
           I17 = I16 - of_int J18 * I18 - of_int J19 * I19 - of_int J20 * I20 - of_int J21 * I21;
           water_g = max 0 I17;
           water_mmol = water_g / Q10
       in Inr
         \<lparr> MgCl2 = \<lparr> mmol = py_round (C12 s) 4, gram = py_round E12 4, mw = py_round (D12 D) 3,
                      form = get_default hydration ''MgCl2'' (Str ''Anhydrous'') \<rparr>,
           CaCl2 = \<lparr> mmol = py_round (C13 s) 4, gram = py_round E13 4, mw = py_round (D13 D) 3,
                      form = get_default hydration ''CaCl2'' (Str ''Anhydrous'') \<rparr>,
           LiCl = \<lparr> mmol = py_round (C14 s) 4, gram = py_round E14 4, mw = py_round D14 3,
                     form = Str ''Anhydrous'' \<rparr>,
           MgSO4 = \<lparr> mmol = py_round (C15 s) 4, gram = py_round E15 4, mw = py_round (D15 D) 3,
                      form = get_default hydration ''MgSO4'' (Str ''Anhydrous'') \<rparr>,
           NaCl = \<lparr> mmol = py_round (C16 s) 4, gram = py_round E16 4, mw = py_round D16 3,
                     form = Str ''Anhydrous'' \<rparr>,
           KCl = \<lparr> mmol = py_round (C17 s) 4, gram = py_round E17 4, mw = py_round D17 3,
                    form = Str ''Anhydrous'' \<rparr>,
           Na2SO4 = \<lparr> mmol = py_round (C18 s) 4, gram = py_round E18 4, mw = py_round (D18 D) 3,
                       form = get_default hydration ''Na2SO4'' (Str ''Anhydrous'') \<rparr>,
           H2O = \<lparr> mmol = py_round water_mmol 2, gram = py_round water_g 2, mw = py_round Q10 3,
                    form = Str ''liquid'' \<rparr> \<rparr>)"

section \<open>Script generator\<close>

subsection \<open>Formatting\<close>

abbreviation TAB :: string where "TAB \<equiv> [CHR 0x09]"
abbreviation NL :: string where "NL \<equiv> [CHR 0x0A]"

text \<open>The decimal digit of \<open>n mod 10\<close>.\<close>

definition digit_char :: "nat \<Rightarrow> char" where
  "digit_char n = ''0123456789'' ! (n mod 10)"

text \<open>The decimal digits of a natural number, most significant first.\<close>

fun nat_digits :: "nat \<Rightarrow> string" where
  "nat_digits n = (if n < 10 then [digit_char n] else nat_digits (n div 10) @ [digit_char n])"

text \<open>The last \<open>k\<close> decimal digits of \<open>n\<close>, padded with zeros.\<close>

fun frac_digits :: "nat \<Rightarrow> nat \<Rightarrow> string" where
  "frac_digits k n = (if k = 0 then [] else frac_digits (k - 1) (n div 10) @ [digit_char n])"

declare nat_digits.simps [simp del] frac_digits.simps [simp del]

text \<open>\<^verbatim>\<open>f"{i}"\<close> for an integer.\<close>

definition str_int :: "int \<Rightarrow> string" where
  "str_int i = (if i < 0 then ''-'' @ nat_digits (nat (- i)) else nat_digits (nat i))"

text \<open>
  \<^verbatim>\<open>f"{x:.nf}"\<close>: the value rounded to \<open>n\<close> decimals (ties to even), written with
  its sign, its integer digits, a point and exactly \<open>n\<close> fraction digits.
\<close>

definition fmt_fixed :: "nat \<Rightarrow> real \<Rightarrow> string" where
  "fmt_fixed n x =
     (let k = nat (round_half_even (\<bar>x\<bar> * 10 ^ n))
      in (if x < 0 then ''-'' else []) @ nat_digits (k div 10 ^ n) @
         (if n = 0 then [] else ''.'' @ frac_digits n (k mod 10 ^ n)))"

subsection \<open>The three blocks of the script\<close>

text \<open>
  The salt molalities as \<^verbatim>\<open>build_phreeqc_input\<close> recomputes them (its own copy of the
  flags and clamps).
\<close>

definition script_salts :: "(string \<rightharpoonup> real) \<Rightarrow> py_error + salt_mmol" where
  "script_salts ion_mmol_kgw =
     bind_err (getitem ion_mmol_kgw ''Na'') (\<lambda>C3.
     bind_err (getitem ion_mmol_kgw ''K'') (\<lambda>C4.
     bind_err (getitem ion_mmol_kgw ''Li'') (\<lambda>C5.
     bind_err (getitem ion_mmol_kgw ''Mg'') (\<lambda>C6.
     bind_err (getitem ion_mmol_kgw ''Ca'') (\<lambda>C7.
     bind_err (getitem ion_mmol_kgw ''SO4'') (\<lambda>C8.
       let A18 = (if C8 > C6 then 1 else 0 :: int);
           A15 = (if A18 = 1 then 0 else 1 :: int)
       in Inr \<lparr> C12 = max 0 (C6 - C8 * of_int A15),
                 C13 = max 0 C7,
                 C14 = max 0 C5,
                 C15 = max 0 C8 * of_int A15,
                 C16 = max 0 (C3 - 2 * C8 * of_int A18),
                 C17 = max 0 C4,
                 C18 = max 0 C8 * of_int A18 \<rparr>))))))"

text \<open>The local helper \<^verbatim>\<open>r(val) = f"{val / RF:.9f}"\<close>.\<close>

definition r :: "real \<Rightarrow> string" where
  "r val = fmt_fixed 9 (val / of_int RF)"

text \<open>The constant solver configuration, up to the blank line before REACTION 1.\<close>

definition script_preamble :: string where
  "script_preamble =
     ''SELECTED_OUTPUT 1'' @ NL @
     ''-molalities'' @ TAB @ ''B(OH)3  B(OH)4- '' @ NL @
     TAB @ ''B3O3(OH)4-  B4O5(OH)4-2  MgB(OH)4+  CaB(OH)4+'' @ NL @
     ''-ionic_strength       '' @ TAB @ ''true'' @ NL @
     ''-pH'' @ TAB @ ''true'' @ NL @
     ''-user_punch'' @ TAB @ ''true'' @ NL @
     ''-water'' @ TAB @ ''true'' @ NL @
     ''-alkalinity'' @ TAB @ ''true'' @ NL @
     ''USER_PUNCH '' @ TAB @ ''1'' @ NL @
     ''-headings '' @ TAB @ ''Volume Density'' @ NL @
     ''-start'' @ NL @
     ''10'' @ TAB @ ''PUNCH SOLN_VOL'' @ NL @
     ''20'' @ TAB @ ''PUNCH RHO'' @ NL @
     ''30'' @ TAB @ ''END'' @ NL @
     ''SOLUTION'' @ TAB @ ''1'' @ NL @
     TAB @ ''temp'' @ TAB @ ''20'' @ NL @
     TAB @ ''pH'' @ TAB @ ''7'' @ NL @
     TAB @ ''pe'' @ TAB @ ''4'' @ NL @
     TAB @ ''redox'' @ TAB @ ''pe'' @ NL @
     TAB @ ''units'' @ TAB @ ''mol/l'' @ NL @
     TAB @ ''C(4)'' @ TAB @ ''1'' @ TAB @ ''CO2(g)'' @ TAB @ fmt_fixed 9 CO2_LOG @ NL @
     TAB @ ''-water'' @ TAB @ ''1'' @ TAB @ ''#'' @ TAB @ ''kg'' @ NL @
     NL"

text \<open>Block 1, salt dissolution: REACTION 1 and the save/end/use boundary after it.\<close>

definition reaction1_block :: "salt_mmol \<Rightarrow> string" where
  "reaction1_block s =
     ''REACTION'' @ TAB @ ''1'' @ NL @
     TAB @ ''MgCl2'' @ TAB @ r (C12 s) @ NL @
     TAB @ ''CaCl2'' @ TAB @ r (C13 s) @ NL @
     TAB @ ''LiCl'' @ TAB @ r (C14 s) @ NL @
     TAB @ ''MgSO4'' @ TAB @ r (C15 s) @ NL @
     TAB @ ''NaCl'' @ TAB @ r (C16 s) @ NL @
     TAB @ ''KCl'' @ TAB @ r (C17 s) @ NL @
     TAB @ ''Na2SO4'' @ TAB @ r (C18 s) @ NL @
     NL @
     TAB @ str_int RF @ TAB @ ''millimoles'' @ TAB @ ''in '' @ TAB @ ''1'' @ TAB @ ''steps'' @ NL @
     ''SAVE'' @ TAB @ ''Solution'' @ TAB @ ''1'' @ NL @
     ''END'' @ NL @
     ''USE'' @ TAB @ ''Solution'' @ TAB @ ''1'' @ NL @
     NL"

text \<open>Block 2a, acid addition: the first REACTION 2, in one step.\<close>

definition acid_block :: "real \<Rightarrow> real \<Rightarrow> string" where
  "acid_block H3BO3_H2O M7 =
     ''REACTION'' @ TAB @ ''2'' @ NL @
     TAB @ ''H3BO3'' @ TAB @ ''1'' @ NL @
     TAB @ ''H2O'' @ TAB @ fmt_fixed 3 H3BO3_H2O @ NL @
     TAB @ fmt_fixed 8 M7 @ TAB @ ''millimoles'' @ TAB @ ''in '' @ TAB @ ''1'' @ TAB @ ''steps'' @ NL @
     NL @
     ''SAVE'' @ TAB @ ''Solution'' @ TAB @ ''1'' @ NL @
     ''END'' @ NL @
     ''USE'' @ TAB @ ''Solution'' @ TAB @ ''1'' @ NL @
     NL"

text \<open>Block 2b, base titration: the second REACTION 2, in \<open>n_steps\<close> steps.\<close>

definition base_block :: "real \<Rightarrow> real \<Rightarrow> int \<Rightarrow> string" where
  "base_block NaOH_H2O M8 n_steps =
     ''REACTION'' @ TAB @ ''2'' @ NL @
     TAB @ ''NaOH'' @ TAB @ ''1'' @ NL @
     TAB @ ''H2O'' @ TAB @ fmt_fixed 4 NaOH_H2O @ NL @
     TAB @ fmt_fixed 8 M8 @ TAB @ ''millimoles'' @ TAB @ ''in '' @ TAB @ str_int n_steps @ TAB @ ''steps'' @ NL @
     NL"

definition build_phreeqc_input ::
    "(string \<rightharpoonup> real) \<Rightarrow> (string \<rightharpoonup> real) \<Rightarrow> real \<Rightarrow> py_error + (string \<times> int)" where
  "build_phreeqc_input ion_mmol_kgw params water_mass =
     bind_err (script_salts ion_mmol_kgw) (\<lambda>s.
     bind_err (getitem params ''H3BO3_conc'') (\<lambda>H3BO3_conc.
     bind_err (getitem params ''sample_vol'') (\<lambda>sample_vol.
     bind_err (getitem params ''H3BO3_vol'') (\<lambda>H3BO3_vol.
     bind_err (getitem params ''NaOH_conc'') (\<lambda>NaOH_conc.
     bind_err (getitem params ''NaOH_vol'') (\<lambda>NaOH_vol.
       let kgw_sample = sample_vol * water_mass / 1000;
           M6 = H3BO3_conc * H3BO3_vol
       in
     bind_err (py_div M6 kgw_sample) (\<lambda>M7.
       let M9 = NaOH_conc * NaOH_vol in
     bind_err (py_div M9 kgw_sample) (\<lambda>M8.
     bind_err (py_div 55.5556 H3BO3_conc) (\<lambda>H3BO3_H2O.
     bind_err (py_div 55.5556 NaOH_conc) (\<lambda>NaOH_H2O.
       let n_steps = 20;
           pqi = script_preamble @ reaction1_block s @ acid_block H3BO3_H2O M7 @
                 base_block NaOH_H2O M8 n_steps
       in Inr (pqi, n_steps)))))))))))"

section \<open>Result classifier\<close>

subsection \<open>Python operators on row values\<close>

text \<open>Truthiness, as \<^verbatim>\<open>x or 0\<close> tests it.\<close>

fun truthy :: "pyval \<Rightarrow> bool" where
  "truthy (Num x) = (x \<noteq> 0)"
| "truthy (Str s) = (s \<noteq> [])"
| "truthy NoneV = False"

definition or0 :: "pyval \<Rightarrow> pyval" where
  "or0 x = (if truthy x then x else Num 0)"

fun py_add :: "pyval \<Rightarrow> pyval \<Rightarrow> py_error + pyval" where
  "py_add (Num a) (Num b) = Inr (Num (a + b))"
| "py_add (Str a) (Str b) = Inr (Str (a @ b))"
| "py_add _ _ = Inl TypeError"

fun py_gt :: "pyval \<Rightarrow> real \<Rightarrow> py_error + bool" where
  "py_gt (Num a) b = Inr (a > b)"
| "py_gt _ b = Inl TypeError"

fun py_truediv :: "pyval \<Rightarrow> pyval \<Rightarrow> py_error + real" where
  "py_truediv (Num a) (Num b) = py_div a b"
| "py_truediv _ _ = Inl TypeError"

text \<open>\<^verbatim>\<open>round(v, n)\<close> on a row value.\<close>

fun py_round_val :: "pyval \<Rightarrow> nat \<Rightarrow> py_error + real" where
  "py_round_val (Num x) n = Inr (py_round x n)"
| "py_round_val _ n = Inl TypeError"

subsection \<open>Boron speciation ratio\<close>

type_synonym row = "string \<rightharpoonup> pyval"

text \<open>The six molalities \<^verbatim>\<open>L, M, N, O, P, Q\<close> of the source are \<open>bL .. bQ\<close> here.\<close>

definition b4b3_ratio :: "row \<Rightarrow> py_error + real" where
  "b4b3_ratio row =
     (let bL = or0 (get_default row ''m_B(OH)3(mol/kgw)'' (Num 0));
          bM = or0 (get_default row ''m_B(OH)4-(mol/kgw)'' (Num 0));
          bN = or0 (get_default row ''m_B3O3(OH)4-(mol/kgw)'' (Num 0));
          bO = or0 (get_default row ''m_B4O5(OH)4-2(mol/kgw)'' (Num 0));
          bP = or0 (get_default row ''m_MgB(OH)4+(mol/kgw)'' (Num 0));
          bQ = or0 (get_default row ''m_CaB(OH)4+(mol/kgw)'' (Num 0))
      in
      bind_err (py_add bM bP) (\<lambda>n1.
      bind_err (py_add n1 bQ) (\<lambda>n2.
      bind_err (py_add n2 bN) (\<lambda>n3.
      bind_err (py_add n3 bO) (\<lambda>n4.
      bind_err (py_add n4 bO) (\<lambda>num.
      bind_err (py_add bL bN) (\<lambda>d1.
      bind_err (py_add d1 bN) (\<lambda>d2.
      bind_err (py_add d2 bO) (\<lambda>d3.
      bind_err (py_add d3 bO) (\<lambda>den.
      bind_err (py_gt den (1 / 10 ^ 30)) (\<lambda>c.
        if c then py_truediv num den else Inr 0)))))))))))"

subsection \<open>The loop over the solver's rows\<close>

text \<open>One emitted titration point (\<^verbatim>\<open>'state'\<close>, \<^verbatim>\<open>'V_NaOH'\<close>, \<^verbatim>\<open>'pH'\<close>, \<^verbatim>\<open>'B4B3'\<close>).\<close>

record titration_point =
  t_state :: string
  V_NaOH :: real
  t_pH :: "real option"
  B4B3 :: real

text \<open>The three variables the loop of \<^verbatim>\<open>calculate\<close> updates.\<close>

record loop_state =
  react_count :: int
  titration :: "titration_point list"
  naoh_vol :: real

definition loop_init :: loop_state where
  "loop_init = \<lparr> react_count = 0, titration = [], naoh_vol = 0 \<rparr>"

text \<open>\<^verbatim>\<open>round(pH, 5) if pH is not None else None\<close>, for \<^verbatim>\<open>pH = row.get('pH')\<close>.\<close>

definition round_pH :: "pyval option \<Rightarrow> py_error + real option" where
  "round_pH pH =
     (case pH of
        None \<Rightarrow> Inr None
      | Some NoneV \<Rightarrow> Inr None
      | Some v \<Rightarrow> bind_err (py_round_val v 5) (\<lambda>x. Inr (Some x)))"

text \<open>The body of the loop, for one row.\<close>

definition classify_row :: "real \<Rightarrow> loop_state \<Rightarrow> row \<Rightarrow> py_error + loop_state" where
  "classify_row step_ml st row =
     (let state = get_default row ''state'' (Str []);
          pH = row ''pH''
      in
      bind_err (b4b3_ratio row) (\<lambda>ratio.
        if state = Str ''i_soln'' then Inr st
        else if state = Str ''react'' then
          (let rc = react_count st + 1 in
           if rc \<le> 2 then Inr (st\<lparr> react_count := rc \<rparr>)
           else
             (let nv = py_round (naoh_vol st + step_ml) 8 in
              bind_err (round_pH pH) (\<lambda>p.
                Inr (st\<lparr> react_count := rc, naoh_vol := nv,
                         titration := titration st @
                           [\<lparr> t_state = ''react'', V_NaOH = nv, t_pH = p,
                              B4B3 = py_round ratio 7 \<rparr>] \<rparr>))))
        else Inr st))"

fun classify_rows :: "real \<Rightarrow> loop_state \<Rightarrow> row list \<Rightarrow> py_error + loop_state" where
  "classify_rows step_ml st [] = Inr st"
| "classify_rows step_ml st (row # rows) =
     bind_err (classify_row step_ml st row) (\<lambda>st'. classify_rows step_ml st' rows)"

section \<open>Request handling\<close>

text \<open>
  \<^verbatim>\<open>float(v)\<close> on a payload value. Python's parsing of a numeric string is the
  parameter \<open>pf\<close> (\<open>None\<close> where Python raises ValueError).
\<close>

fun py_float :: "(string \<Rightarrow> real option) \<Rightarrow> pyval \<Rightarrow> py_error + real" where
  "py_float pf (Num x) = Inr x"
| "py_float pf (Str s) = (case pf s of None \<Rightarrow> Inl ValueError | Some x \<Rightarrow> Inr x)"
| "py_float pf NoneV = Inl TypeError"

text \<open>\<^verbatim>\<open>float(d[k])\<close>.\<close>

definition float_item :: "(string \<Rightarrow> real option) \<Rightarrow> (string \<rightharpoonup> pyval) \<Rightarrow> string \<Rightarrow> py_error + real" where
  "float_item pf d k = bind_err (getitem d k) (py_float pf)"

definition parse_payload ::
    "(string \<Rightarrow> real option) \<Rightarrow> (string \<rightharpoonup> pyval) \<Rightarrow>
       py_error + (real \<times> (string \<rightharpoonup> real) \<times> (string \<rightharpoonup> pyval))" where
  "parse_payload pf d =
     bind_err (float_item pf d ''density'') (\<lambda>density.
     bind_err (float_item pf d ''tds'') (\<lambda>tds.
     bind_err (getitem d ''tds_unit'') (\<lambda>tds_unit.
       let wm = calc_water_mass density tds tds_unit in
     bind_err (bind_err (float_item pf d ''Na'') (\<lambda>x. to_mmol_kgw x Q3 wm)) (\<lambda>na.
     bind_err (bind_err (float_item pf d ''K'') (\<lambda>x. to_mmol_kgw x Q4 wm)) (\<lambda>k.
     bind_err (bind_err (float_item pf d ''Li'') (\<lambda>x. to_mmol_kgw x Q5 wm)) (\<lambda>li.
     bind_err (bind_err (float_item pf d ''Mg'') (\<lambda>x. to_mmol_kgw x Q6 wm)) (\<lambda>mg.
     bind_err (bind_err (float_item pf d ''Ca'') (\<lambda>x. to_mmol_kgw x Q7 wm)) (\<lambda>ca.
     bind_err (bind_err (float_item pf d ''SO4'') (\<lambda>x. to_mmol_kgw x Q8 wm)) (\<lambda>so4.
       let ion = [''Na'' \<mapsto> na, ''K'' \<mapsto> k, ''Li'' \<mapsto> li, ''Mg'' \<mapsto> mg, ''Ca'' \<mapsto> ca,
                  ''SO4'' \<mapsto> so4];
           hyd = [''MgCl2'' \<mapsto> get_default d ''hyd_MgCl2'' (Str ''Hexahydrate''),
                  ''CaCl2'' \<mapsto> get_default d ''hyd_CaCl2'' (Str ''Anhydrous''),
                  ''MgSO4'' \<mapsto> get_default d ''hyd_MgSO4'' (Str ''Heptahydrate''),
                  ''Na2SO4'' \<mapsto> get_default d ''hyd_Na2SO4'' (Str ''Anhydrous'')]
       in Inr (wm, ion, hyd))))))))))"

text \<open>
  The \<^verbatim>\<open>/recipe\<close> route. Every exception is caught and answered with an error
  message (HTTP 500): \<open>Inl\<close> is that answer.
\<close>

definition recipe_route ::
    "(string \<Rightarrow> real option) \<Rightarrow> (string \<rightharpoonup> pyval) \<Rightarrow> py_error + (recipe \<times> real)" where
  "recipe_route pf d =
     bind_err (parse_payload pf d) (\<lambda>(wm, ion, hyd).
     bind_err (build_recipe ion hyd) (\<lambda>rec. Inr (rec, py_round wm 6)))"

text \<open>The answer of \<^verbatim>\<open>/calculate\<close>.\<close>

record response =
  r_titration :: "titration_point list"
  r_recipe :: recipe
  r_water_mass :: real
  r_ion_mmol_kgw :: "string \<rightharpoonup> real"
  r_n_steps :: int

text \<open>
  The \<^verbatim>\<open>/calculate\<close> route. The external solver \<^verbatim>\<open>run_phreeqc\<close> is the parameter
  \<open>run_phreeqc\<close>: it takes the script and returns the rows or raises. As in
  \<^verbatim>\<open>/recipe\<close>, \<open>Inl\<close> is the error answer.
\<close>

definition calculate ::
    "(string \<Rightarrow> real option) \<Rightarrow> (string \<Rightarrow> py_error + row list) \<Rightarrow> (string \<rightharpoonup> pyval) \<Rightarrow>
       py_error + response" where
  "calculate pf run_phreeqc d =
     bind_err (parse_payload pf d) (\<lambda>(wm, ion, hyd).
     bind_err (bind_err (float_item pf d ''B'') (\<lambda>x. to_mmol_kgw x 10.811 wm)) (\<lambda>b.
     bind_err (bind_err (float_item pf d ''Br'') (\<lambda>x. to_mmol_kgw x 79.904 wm)) (\<lambda>br.
       let ion_full = ion(''B'' \<mapsto> b, ''Br'' \<mapsto> br) in
     bind_err (float_item pf d ''H3BO3_conc'') (\<lambda>h3bo3_conc.
     bind_err (float_item pf d ''H3BO3_vol'') (\<lambda>h3bo3_vol.
     bind_err (float_item pf d ''sample_vol'') (\<lambda>sample_vol.
     bind_err (float_item pf d ''NaOH_conc'') (\<lambda>naoh_conc.
     bind_err (float_item pf d ''NaOH_vol'') (\<lambda>naoh_vol0.
     bind_err (py_float pf (get_default d ''pH'' (Num 8.5))) (\<lambda>ph.
       let params = [''H3BO3_conc'' \<mapsto> h3bo3_conc, ''H3BO3_vol'' \<mapsto> h3bo3_vol,
                     ''sample_vol'' \<mapsto> sample_vol, ''NaOH_conc'' \<mapsto> naoh_conc,
                     ''NaOH_vol'' \<mapsto> naoh_vol0, ''pH'' \<mapsto> ph]
       in
     bind_err (build_phreeqc_input ion params wm) (\<lambda>(pqi, n_steps).
     bind_err (run_phreeqc pqi) (\<lambda>rows.
     bind_err (build_recipe ion hyd) (\<lambda>rec.
     bind_err (float_item pf d ''NaOH_vol'') (\<lambda>v.
       let step_ml = v / 20 in
     bind_err (classify_rows step_ml loop_init rows) (\<lambda>st.
       Inr \<lparr> r_titration = titration st,
             r_recipe = rec,
             r_water_mass = py_round wm 6,
             r_ion_mmol_kgw = (\<lambda>key. map_option (\<lambda>v. py_round v 5) (ion_full key)),
             r_n_steps = n_steps \<rparr>))))))))))))))"

section \<open>Reference formulations and example inputs\<close>

text \<open>The six boron molality columns of a solver row.\<close>

definition boron_keys :: "string list" where
  "boron_keys =
     [''m_B(OH)3(mol/kgw)'', ''m_B(OH)4-(mol/kgw)'', ''m_B3O3(OH)4-(mol/kgw)'',
      ''m_B4O5(OH)4-2(mol/kgw)'', ''m_MgB(OH)4+(mol/kgw)'', ''m_CaB(OH)4+(mol/kgw)'']"

text \<open>
  A molality field as the specification reads it: its number, and 0 when the field is
  missing or empty.
\<close>

definition molality :: "row \<Rightarrow> string \<Rightarrow> real" where
  "molality row k = (case row k of Some (Num x) \<Rightarrow> x | _ \<Rightarrow> 0)"

text \<open>A field that is absent, numeric, \<^verbatim>\<open>None\<close> or the empty string.\<close>

definition field_ok :: "pyval option \<Rightarrow> bool" where
  "field_ok v =
     (case v of None \<Rightarrow> True | Some (Num x) \<Rightarrow> True | Some (Str s) \<Rightarrow> s = [] | Some NoneV \<Rightarrow> True)"

definition boron_fields_ok :: "row \<Rightarrow> bool" where
  "boron_fields_ok row = list_all (\<lambda>k. field_ok (row k)) boron_keys"

text \<open>
  The boron speciation ratio in the specification's words: numerator over denominator
  when the denominator exceeds \<open>1e-30\<close>, else 0.
\<close>

definition boron_ratio :: "row \<Rightarrow> real" where
  "boron_ratio row =
     (let numerator = molality row ''m_B(OH)4-(mol/kgw)'' + molality row ''m_MgB(OH)4+(mol/kgw)'' +
                      molality row ''m_CaB(OH)4+(mol/kgw)'' + molality row ''m_B3O3(OH)4-(mol/kgw)'' +
                      2 * molality row ''m_B4O5(OH)4-2(mol/kgw)'';
          denominator = molality row ''m_B(OH)3(mol/kgw)'' + 2 * molality row ''m_B3O3(OH)4-(mol/kgw)'' +
                        2 * molality row ''m_B4O5(OH)4-2(mol/kgw)''
      in if denominator > 1 / 10 ^ 30 then numerator / denominator else 0)"

text \<open>
  A row of the solver as the classifier can process it: boron fields as above, and a pH
  that is absent, \<^verbatim>\<open>None\<close> or a number.
\<close>

definition row_ok :: "row \<Rightarrow> bool" where
  "row_ok row =
     (boron_fields_ok row \<and>
      (case row ''pH'' of Some (Str s) \<Rightarrow> False | _ \<Rightarrow> True))"

definition row_state :: "row \<Rightarrow> pyval" where
  "row_state row = get_default row ''state'' (Str [])"

text \<open>The rounded pH of a retained row.\<close>

definition row_pH :: "row \<Rightarrow> real option" where
  "row_pH row = (case row ''pH'' of Some (Num x) \<Rightarrow> Some (py_round x 5) | _ \<Rightarrow> None)"

text \<open>
  The running sum of the loop: starting from \<open>v\<close>, \<open>n\<close> times add the step and round
  to 8 decimals.
\<close>

fun cumulative_volumes :: "real \<Rightarrow> real \<Rightarrow> nat \<Rightarrow> real list" where
  "cumulative_volumes step_ml v 0 = []"
| "cumulative_volumes step_ml v (Suc n) =
     py_round (v + step_ml) 8 # cumulative_volumes step_ml (py_round (v + step_ml) 8) n"

text \<open>
  The points the loop emits for a list of retained rows, starting from the cumulative
  volume \<open>v\<close>.
\<close>

fun titration_points :: "real \<Rightarrow> real \<Rightarrow> row list \<Rightarrow> titration_point list" where
  "titration_points step_ml v [] = []"
| "titration_points step_ml v (row # rows) =
     \<lparr> t_state = ''react'', V_NaOH = py_round (v + step_ml) 8, t_pH = row_pH row,
       B4B3 = py_round (boron_ratio row) 7 \<rparr> #
     titration_points step_ml (py_round (v + step_ml) 8) rows"

text \<open>
  Example solver output: one initial-solution row, then 22 reaction rows (salts, acid,
  20 base steps).
\<close>

definition i_soln_row :: row where
  "i_soln_row = [''state'' \<mapsto> Str ''i_soln'', ''pH'' \<mapsto> Num 7]"

definition react_row :: row where
  "react_row = [''state'' \<mapsto> Str ''react'', ''pH'' \<mapsto> Num 9,
                ''m_B(OH)3(mol/kgw)'' \<mapsto> Num 1, ''m_B(OH)4-(mol/kgw)'' \<mapsto> Num 1]"

definition example_rows :: "row list" where
  "example_rows = i_soln_row # replicate 22 react_row"

text \<open>
  Example payload: the defaults of the \<^verbatim>\<open>/show_input\<close> route (every required field,
  no \<^verbatim>\<open>B\<close> and no \<^verbatim>\<open>Br\<close>), as numbers.
\<close>

definition example_payload :: "string \<rightharpoonup> pyval" where
  "example_payload =
     [''Na'' \<mapsto> Num 2000, ''K'' \<mapsto> Num 5000, ''Li'' \<mapsto> Num 500, ''Mg'' \<mapsto> Num 20,
      ''Ca'' \<mapsto> Num 250, ''SO4'' \<mapsto> Num 50, ''density'' \<mapsto> Num 1.3, ''tds'' \<mapsto> Num 350,
      ''tds_unit'' \<mapsto> Str ''g/L'', ''H3BO3_conc'' \<mapsto> Num 0.4, ''H3BO3_vol'' \<mapsto> Num 4,
      ''sample_vol'' \<mapsto> Num 50, ''NaOH_conc'' \<mapsto> Num 1, ''NaOH_vol'' \<mapsto> Num 2,
      ''hyd_MgCl2'' \<mapsto> Str ''Hexahydrate'', ''hyd_CaCl2'' \<mapsto> Str ''Anhydrous'',
      ''hyd_MgSO4'' \<mapsto> Str ''Heptahydrate'', ''hyd_Na2SO4'' \<mapsto> Str ''Anhydrous'']"

text \<open>Example ion molalities and titration parameters.\<close>

definition example_ion :: "string \<rightharpoonup> real" where
  "example_ion = [''Na'' \<mapsto> 100, ''K'' \<mapsto> 10, ''Li'' \<mapsto> 5, ''Mg'' \<mapsto> 2, ''Ca'' \<mapsto> 3, ''SO4'' \<mapsto> 7]"

definition example_params :: "string \<rightharpoonup> real" where
  "example_params = [''H3BO3_conc'' \<mapsto> 0.4, ''H3BO3_vol'' \<mapsto> 4, ''sample_vol'' \<mapsto> 50,
                     ''NaOH_conc'' \<mapsto> 1, ''NaOH_vol'' \<mapsto> 2, ''pH'' \<mapsto> 8.5]"

text \<open>Ion molalities with a sulfate molality below the rounding unit of the recipe.\<close>

definition tiny_sulfate_ion :: "string \<rightharpoonup> real" where
  "tiny_sulfate_ion =
     [''Na'' \<mapsto> 100, ''K'' \<mapsto> 10, ''Li'' \<mapsto> 5, ''Mg'' \<mapsto> 1, ''Ca'' \<mapsto> 3, ''SO4'' \<mapsto> 0.00001]"

section \<open>Verified properties\<close>

subsection \<open>Auxiliary facts\<close>

lemma bind_err_simps [simp]:
  "bind_err (Inl e) f = Inl e"
  "bind_err (Inr x) f = f x"
  by (simp_all add: bind_err_def)

lemma getitem_Some [simp]: "d k = Some v \<Longrightarrow> getitem d k = Inr v"
  by (simp add: getitem_def)

lemma getitem_None [simp]: "d k = None \<Longrightarrow> getitem d k = Inl (KeyError k)"
  by (simp add: getitem_def)

lemma rhe_lower: "y - 1/2 \<le> of_int (round_half_even y)"
  unfolding round_half_even_def Let_def by (auto; linarith)

lemma rhe_upper: "of_int (round_half_even y) \<le> y + 1/2"
  unfolding round_half_even_def Let_def by (auto; linarith)

lemma rhe_nonneg: "0 \<le> y \<Longrightarrow> 0 \<le> round_half_even y"
  unfolding round_half_even_def Let_def by auto

lemma rhe_of_int [simp]: "round_half_even (of_int m) = m"
  unfolding round_half_even_def Let_def by simp

lemma py_round_nonneg: "0 \<le> x \<Longrightarrow> 0 \<le> py_round x n"
  unfolding py_round_def by (simp add: rhe_nonneg)

lemma py_round_zero [simp]: "py_round 0 n = 0"
  unfolding py_round_def round_half_even_def by simp

lemma py_round_error: "\<bar>py_round x n - x\<bar> \<le> 1 / (2 * 10 ^ n)"
proof -
  let ?r = "real_of_int (round_half_even (x * 10 ^ n))"
  have l: "x * 10 ^ n - 1/2 \<le> ?r" by (rule rhe_lower)
  have u: "?r \<le> x * 10 ^ n + 1/2" by (rule rhe_upper)
  have h: "\<bar>?r - x * 10 ^ n\<bar> \<le> 1/2" using l u by linarith
  have "\<bar>?r - x * 10 ^ n\<bar> / 10 ^ n \<le> (1/2) / 10 ^ n"
    by (rule divide_right_mono [OF h]) simp
  moreover have "py_round x n - x = (?r - x * 10 ^ n) / 10 ^ n"
    by (simp add: py_round_def diff_divide_distrib)
  ultimately show ?thesis by simp
qed

text \<open>
  Claim C2. For every density and tds, the water mass is \<open>(1000 density - tds) / 1000\<close>
  when the unit tag is the string \<^verbatim>\<open>g/L\<close>, and \<open>(1000 density - tds density) / 1000\<close>
  for any other tag; the result is not bounded below: density 1 with tds 2000 g/L gives
  \<open>-1\<close>.
\<close>

theorem calc_water_mass_formula:
  "(tds_unit = Str ''g/L'' \<longrightarrow> calc_water_mass density tds tds_unit = (1000 * density - tds) / 1000) \<and>
   (tds_unit \<noteq> Str ''g/L'' \<longrightarrow>
      calc_water_mass density tds tds_unit = (1000 * density - tds * density) / 1000) \<and>
   calc_water_mass 1 2000 (Str ''g/L'') = - 1"
  by (simp add: calc_water_mass_def)

theorem calc_water_mass_formula_witness:
  "calc_water_mass 1.2 100 (Str ''g/L'') = 1.1 \<and> calc_water_mass 1.2 100 (Str ''g/kgs'') = 1.08"
  using calc_water_mass_formula [of "Str ''g/L''" "1.2" 100]
        calc_water_mass_formula [of "Str ''g/kgs''" "1.2" 100]
  by simp

text \<open>
  Claim C3, as stated, fails: for density 1.3 and tds 350 g/L the water mass is not
  within half a unit of the fourth decimal of 1.2500.
\<close>

theorem scenario_water_mass_not_1_25:
  "\<not> \<bar>calc_water_mass 1.3 350 (Str ''g/L'') - 1.25\<bar> \<le> 0.00005"
  by (simp add: calc_water_mass_def)

text \<open>
  Claim C3, amended. For density 1.3 and tds 350 with unit \<^verbatim>\<open>g/L\<close> the water mass is
  \<open>(1000 \<times> 1.3 - 350) / 1000 = 0.95\<close> kgw/L.
\<close>

theorem scenario_water_mass: "calc_water_mass 1.3 350 (Str ''g/L'') = 0.95"
  by (simp add: calc_water_mass_def)

text \<open>
  Claim C9. For every ion-molality dictionary, the salt molalities that the script
  generator recomputes are those of the recipe builder, value for value (and both raise
  the same KeyError when an ion is missing).
\<close>

theorem script_salts_eq_recipe_salts: "script_salts ion = recipe_salts ion"
  by (simp add: script_salts_def recipe_salts_def)

lemma recipe_salts_Inr:
  assumes "ion ''Na'' = Some na" "ion ''K'' = Some k" "ion ''Li'' = Some li"
    "ion ''Mg'' = Some mg" "ion ''Ca'' = Some ca" "ion ''SO4'' = Some sul"
  shows "recipe_salts ion =
    Inr \<lparr> C12 = max 0 (mg - sul * (if sul > mg then 0 else 1)),
          C13 = max 0 ca, C14 = max 0 li,
          C15 = max 0 sul * (if sul > mg then 0 else 1),
          C16 = max 0 (na - 2 * sul * (if sul > mg then 1 else 0)),
          C17 = max 0 k,
          C18 = max 0 sul * (if sul > mg then 1 else 0) \<rparr>"
  using assms by (simp add: recipe_salts_def)

lemma build_recipe_Inr:
  assumes "recipe_salts ion = Inr s"
  shows "\<exists>rec. build_recipe ion hyd = Inr rec \<and>
     mmol (MgCl2 rec) = py_round (C12 s) 4 \<and> mmol (CaCl2 rec) = py_round (C13 s) 4 \<and>
     mmol (LiCl rec) = py_round (C14 s) 4 \<and> mmol (MgSO4 rec) = py_round (C15 s) 4 \<and>
     mmol (NaCl rec) = py_round (C16 s) 4 \<and> mmol (KCl rec) = py_round (C17 s) 4 \<and>
     mmol (Na2SO4 rec) = py_round (C18 s) 4"
  using assms by (simp add: build_recipe_def Let_def)

lemma py_round_pos: "1 / (2 * 10 ^ n) < x \<Longrightarrow> 0 < py_round x n"
  using py_round_error [of x n] by linarith

lemma py_round_small: "0 \<le> x \<Longrightarrow> x < 1 / (2 * 10 ^ n) \<Longrightarrow> py_round x n = 0"
proof -
  assume x: "0 \<le> x" "x < 1 / (2 * 10 ^ n)"
  have p: "(0::real) < 10 ^ n" by simp
  have "x * 10 ^ n < 1 / 2" using x(2) p by (simp add: field_simps)
  moreover have "0 \<le> x * 10 ^ n" using x(1) by simp
  ultimately have "\<lfloor>x * 10 ^ n\<rfloor> = 0" by linarith
  with \<open>x * 10 ^ n < 1 / 2\<close> have "round_half_even (x * 10 ^ n) = 0"
    by (simp add: round_half_even_def)
  then show ?thesis by (simp add: py_round_def)
qed

text \<open>
  Claim C1, amended. For every ion-molality input (the six ions present) and every
  hydration choice the recipe builder returns, and its MgSO4 and Na2SO4 entries are the
  molalities \<open>C15\<close> and \<open>C18\<close> rounded to 4 decimals. On the unrounded molalities:
  when \<open>SO4 > 0\<close> and \<open>SO4 \<le> Mg\<close>, MgSO4 is strictly positive and Na2SO4 is 0; when
  \<open>SO4 > 0\<close> and \<open>SO4 > Mg\<close> it is the other way round; when \<open>SO4 = 0\<close> both are 0.
  On the returned entries: the salt that is not selected is exactly 0 (Na2SO4 when
  \<open>SO4 \<le> Mg\<close>, MgSO4 when \<open>SO4 > Mg\<close>), the selected one is strictly positive when
  \<open>SO4 > 0.00005\<close>, and both are 0 when \<open>SO4 < 0.00005\<close>.
\<close>

theorem salt_path_exclusivity:
  assumes "ion ''Na'' = Some na" "ion ''K'' = Some k" "ion ''Li'' = Some li"
    "ion ''Mg'' = Some mg" "ion ''Ca'' = Some ca" "ion ''SO4'' = Some sul"
  shows "\<exists>s rec. recipe_salts ion = Inr s \<and> build_recipe ion hyd = Inr rec \<and>
           mmol (MgSO4 rec) = py_round (C15 s) 4 \<and> mmol (Na2SO4 rec) = py_round (C18 s) 4 \<and>
           (0 < sul \<and> sul \<le> mg \<longrightarrow> 0 < C15 s \<and> C18 s = 0) \<and>
           (0 < sul \<and> mg < sul \<longrightarrow> 0 < C18 s \<and> C15 s = 0) \<and>
           (sul = 0 \<longrightarrow> C15 s = 0 \<and> C18 s = 0) \<and>
           (sul \<le> mg \<longrightarrow> mmol (Na2SO4 rec) = 0) \<and>
           (mg < sul \<longrightarrow> mmol (MgSO4 rec) = 0) \<and>
           (0.00005 < sul \<and> sul \<le> mg \<longrightarrow> 0 < mmol (MgSO4 rec)) \<and>
           (0.00005 < sul \<and> mg < sul \<longrightarrow> 0 < mmol (Na2SO4 rec)) \<and>
           (sul < 0.00005 \<longrightarrow> mmol (MgSO4 rec) = 0 \<and> mmol (Na2SO4 rec) = 0)"
proof -
  let ?s = "\<lparr> C12 = max 0 (mg - sul * (if sul > mg then 0 else 1)),
          C13 = max 0 ca, C14 = max 0 li,
          C15 = max 0 sul * (if sul > mg then 0 else 1),
          C16 = max 0 (na - 2 * sul * (if sul > mg then 1 else 0)),
          C17 = max 0 k,
          C18 = max 0 sul * (if sul > mg then 1 else 0) \<rparr>"
  have s: "recipe_salts ion = Inr ?s" by (rule recipe_salts_Inr [OF assms])
  from build_recipe_Inr [OF s, of hyd] obtain rec where
    rec: "build_recipe ion hyd = Inr rec"
      "mmol (MgSO4 rec) = py_round (C15 ?s) 4" "mmol (Na2SO4 rec) = py_round (C18 ?s) 4"
    by blast
  have raw: "(0 < sul \<and> sul \<le> mg \<longrightarrow> 0 < C15 ?s \<and> C18 ?s = 0) \<and>
           (0 < sul \<and> mg < sul \<longrightarrow> 0 < C18 ?s \<and> C15 ?s = 0) \<and>
           (sul = 0 \<longrightarrow> C15 ?s = 0 \<and> C18 ?s = 0)"
    by simp
  have other: "(sul \<le> mg \<longrightarrow> mmol (Na2SO4 rec) = 0) \<and> (mg < sul \<longrightarrow> mmol (MgSO4 rec) = 0)"
    unfolding rec by simp
  have h: "(1::real) / (2 * 10 ^ 4) = 0.00005" by simp
  have pos: "(0.00005 < sul \<and> sul \<le> mg \<longrightarrow> 0 < mmol (MgSO4 rec)) \<and>
           (0.00005 < sul \<and> mg < sul \<longrightarrow> 0 < mmol (Na2SO4 rec))"
  proof (intro conjI impI)
    assume a: "0.00005 < sul \<and> sul \<le> mg"
    then have "C15 ?s = sul" by simp
    with a show "0 < mmol (MgSO4 rec)" unfolding rec by (simp only: h [symmetric] py_round_pos)
  next
    assume a: "0.00005 < sul \<and> mg < sul"
    then have "C18 ?s = sul" by simp
    with a show "0 < mmol (Na2SO4 rec)" unfolding rec by (simp only: h [symmetric] py_round_pos)
  qed
  have small: "sul < 0.00005 \<longrightarrow> mmol (MgSO4 rec) = 0 \<and> mmol (Na2SO4 rec) = 0"
  proof
    assume a: "sul < 0.00005"
    have "0 \<le> max 0 sul" "max 0 sul < 1 / (2 * 10 ^ 4)" using a by simp_all
    then have z: "py_round (max 0 sul) 4 = 0" by (rule py_round_small)
    show "mmol (MgSO4 rec) = 0 \<and> mmol (Na2SO4 rec) = 0"
      unfolding rec using z by simp
  qed
  from s rec raw other pos small show ?thesis by blast
qed

theorem salt_path_exclusivity_witness:
  "\<exists>s rec. recipe_salts example_ion = Inr s \<and> build_recipe example_ion Map.empty = Inr rec \<and>
       0 < C18 s \<and> C15 s = 0 \<and> 0 < mmol (Na2SO4 rec) \<and> mmol (MgSO4 rec) = 0"
proof -
  have "example_ion ''Na'' = Some 100" "example_ion ''K'' = Some 10" "example_ion ''Li'' = Some 5"
    "example_ion ''Mg'' = Some 2" "example_ion ''Ca'' = Some 3" "example_ion ''SO4'' = Some 7"
    by (simp_all add: example_ion_def)
  from salt_path_exclusivity [OF this, of Map.empty] show ?thesis by auto
qed

text \<open>
  Claim C1, as stated, fails on the returned entries: for \<open>SO4 = 0.00001\<close> and
  \<open>Mg = 1\<close> the unrounded MgSO4 molality is positive, but the MgSO4 and Na2SO4
  entries that the recipe builder returns are both 0.
\<close>

theorem tiny_sulfate_rounds_to_zero:
  "\<exists>s rec. recipe_salts tiny_sulfate_ion = Inr s \<and>
     build_recipe tiny_sulfate_ion Map.empty = Inr rec \<and>
     0 < C15 s \<and> mmol (MgSO4 rec) = 0 \<and> mmol (Na2SO4 rec) = 0"
proof -
  have i: "tiny_sulfate_ion ''Na'' = Some 100" "tiny_sulfate_ion ''K'' = Some 10"
    "tiny_sulfate_ion ''Li'' = Some 5" "tiny_sulfate_ion ''Mg'' = Some 1"
    "tiny_sulfate_ion ''Ca'' = Some 3" "tiny_sulfate_ion ''SO4'' = Some 0.00001"
    by (simp_all add: tiny_sulfate_ion_def)
  let ?s = "\<lparr> C12 = max 0 (1 - 0.00001 * (if 0.00001 > (1::real) then 0 else 1)),
          C13 = max 0 3, C14 = max 0 5,
          C15 = max 0 0.00001 * (if 0.00001 > (1::real) then 0 else 1),
          C16 = max 0 (100 - 2 * 0.00001 * (if 0.00001 > (1::real) then 1 else 0)),
          C17 = max 0 10,
          C18 = max 0 0.00001 * (if 0.00001 > (1::real) then 1 else 0) \<rparr>"
  have s: "recipe_salts tiny_sulfate_ion = Inr ?s" by (rule recipe_salts_Inr [OF i])
  from build_recipe_Inr [OF s, of Map.empty] obtain rec where
    rec: "build_recipe tiny_sulfate_ion Map.empty = Inr rec"
      "mmol (MgSO4 rec) = py_round (C15 ?s) 4" "mmol (Na2SO4 rec) = py_round (C18 ?s) 4"
    by blast
  have "py_round (0.00001::real) 4 = 0" by (simp add: py_round_def round_half_even_def)
  then have "mmol (MgSO4 rec) = 0" "mmol (Na2SO4 rec) = 0" "0 < C15 ?s"
    unfolding rec by simp_all
  with s rec(1) show ?thesis by blast
qed

text \<open>
  Claim C8. For all ion inputs (the six ions present) and every hydration choice the
  recipe builder returns without an error, each of its seven salt molalities is
  non-negative, before and after the rounding of the returned entries, and the NaCl
  molality is \<open>max 0 (Na - 2 SO4)\<close> on the Na2SO4 path (\<open>SO4 > Mg\<close>), hence 0 when the
  subtraction is negative.
\<close>

theorem salt_molalities_nonneg:
  assumes "ion ''Na'' = Some na" "ion ''K'' = Some k" "ion ''Li'' = Some li"
    "ion ''Mg'' = Some mg" "ion ''Ca'' = Some ca" "ion ''SO4'' = Some sul"
  shows "\<exists>s rec. recipe_salts ion = Inr s \<and> build_recipe ion hyd = Inr rec \<and>
           0 \<le> C12 s \<and> 0 \<le> C13 s \<and> 0 \<le> C14 s \<and> 0 \<le> C15 s \<and> 0 \<le> C16 s \<and>
           0 \<le> C17 s \<and> 0 \<le> C18 s \<and>
           0 \<le> mmol (MgCl2 rec) \<and> 0 \<le> mmol (CaCl2 rec) \<and> 0 \<le> mmol (LiCl rec) \<and>
           0 \<le> mmol (MgSO4 rec) \<and> 0 \<le> mmol (NaCl rec) \<and> 0 \<le> mmol (KCl rec) \<and>
           0 \<le> mmol (Na2SO4 rec) \<and>
           (mg < sul \<longrightarrow> C16 s = max 0 (na - 2 * sul)) \<and>
           (mg < sul \<and> na - 2 * sul < 0 \<longrightarrow> C16 s = 0) \<and>
           (sul \<le> mg \<longrightarrow> C16 s = max 0 na)"
proof -
  let ?s = "\<lparr> C12 = max 0 (mg - sul * (if sul > mg then 0 else 1)),
          C13 = max 0 ca, C14 = max 0 li,
          C15 = max 0 sul * (if sul > mg then 0 else 1),
          C16 = max 0 (na - 2 * sul * (if sul > mg then 1 else 0)),
          C17 = max 0 k,
          C18 = max 0 sul * (if sul > mg then 1 else 0) \<rparr>"
  have s: "recipe_salts ion = Inr ?s" by (rule recipe_salts_Inr [OF assms])
  from build_recipe_Inr [OF s, of hyd] obtain rec where
    rec: "build_recipe ion hyd = Inr rec"
      "mmol (MgCl2 rec) = py_round (C12 ?s) 4" "mmol (CaCl2 rec) = py_round (C13 ?s) 4"
      "mmol (LiCl rec) = py_round (C14 ?s) 4" "mmol (MgSO4 rec) = py_round (C15 ?s) 4"
      "mmol (NaCl rec) = py_round (C16 ?s) 4" "mmol (KCl rec) = py_round (C17 ?s) 4"
      "mmol (Na2SO4 rec) = py_round (C18 ?s) 4"
    by blast
  have nn: "0 \<le> C12 ?s" "0 \<le> C13 ?s" "0 \<le> C14 ?s" "0 \<le> C15 ?s" "0 \<le> C16 ?s"
    "0 \<le> C17 ?s" "0 \<le> C18 ?s"
    by simp_all
  have "0 \<le> mmol (MgCl2 rec) \<and> 0 \<le> mmol (CaCl2 rec) \<and> 0 \<le> mmol (LiCl rec) \<and>
           0 \<le> mmol (MgSO4 rec) \<and> 0 \<le> mmol (NaCl rec) \<and> 0 \<le> mmol (KCl rec) \<and>
           0 \<le> mmol (Na2SO4 rec)"
    unfolding rec using nn by (intro conjI py_round_nonneg)
  moreover have "(mg < sul \<longrightarrow> C16 ?s = max 0 (na - 2 * sul)) \<and>
           (mg < sul \<and> na - 2 * sul < 0 \<longrightarrow> C16 ?s = 0) \<and>
           (sul \<le> mg \<longrightarrow> C16 ?s = max 0 na)"
    by simp
  ultimately show ?thesis using s rec(1) nn by blast
qed

theorem salt_molalities_nonneg_witness:
  "\<exists>s rec. recipe_salts [''Na'' \<mapsto> 10, ''K'' \<mapsto> - 1, ''Li'' \<mapsto> 5, ''Mg'' \<mapsto> 2, ''Ca'' \<mapsto> 3, ''SO4'' \<mapsto> 7] = Inr s \<and>
     build_recipe [''Na'' \<mapsto> 10, ''K'' \<mapsto> - 1, ''Li'' \<mapsto> 5, ''Mg'' \<mapsto> 2, ''Ca'' \<mapsto> 3, ''SO4'' \<mapsto> 7] Map.empty = Inr rec \<and>
     C16 s = 0 \<and> 0 \<le> C17 s \<and> 0 \<le> mmol (NaCl rec)"
  using salt_molalities_nonneg [of "[''Na'' \<mapsto> 10, ''K'' \<mapsto> - 1, ''Li'' \<mapsto> 5, ''Mg'' \<mapsto> 2, ''Ca'' \<mapsto> 3, ''SO4'' \<mapsto> 7]" 10 "- 1" 5 2 3 7 Map.empty]
  by auto

text \<open>
  Claim C4, as stated, fails for Na2SO4: the molar mass used for the decahydrate is not
  within 0.001 of \<open>142.04 + 10 \<times> 18.01528\<close>.
\<close>

theorem na2so4_decahydrate_mw_differs:
  "\<not> \<bar>D18 (recipe_mw [''Na2SO4'' \<mapsto> Str ''Decahydrate'']) - (142.04 + 10 * 18.01528)\<bar> \<le> 0.001"
  by (simp add: recipe_mw_def is_anhydrous_def get_default_def J13_def)

text \<open>
  Claim C4, amended. When a salt's hydration choice is not \<^verbatim>\<open>Anhydrous\<close>, the molar
  mass used is: MgCl2 \<open>95.211 + 6 \<times> 18.01528\<close> (within 0.001 of 203.302), CaCl2
  \<open>110.984 + 2 \<times> 18.01528\<close> (within 0.001 of 147.015), MgSO4
  \<open>120.366 + 7 \<times> 18.01528\<close>, and for Na2SO4 the fixed constant 322.2, which differs
  from \<open>142.04 + 10 \<times> 18.01528 = 322.1928\<close> by 0.0072.
\<close>

theorem hydrate_molar_masses:
  "(\<not> is_anhydrous h ''MgCl2'' \<longrightarrow>
      D12 (recipe_mw h) = 95.211 + 6 * 18.01528 \<and> \<bar>D12 (recipe_mw h) - 203.302\<bar> \<le> 0.001) \<and>
   (\<not> is_anhydrous h ''CaCl2'' \<longrightarrow>
      D13 (recipe_mw h) = 110.984 + 2 * 18.01528 \<and> \<bar>D13 (recipe_mw h) - 147.015\<bar> \<le> 0.001) \<and>
   (\<not> is_anhydrous h ''MgSO4'' \<longrightarrow> D15 (recipe_mw h) = 120.366 + 7 * 18.01528) \<and>
   (\<not> is_anhydrous h ''Na2SO4'' \<longrightarrow>
      D18 (recipe_mw h) = 322.2 \<and> \<bar>D18 (recipe_mw h) - (142.04 + 10 * 18.01528)\<bar> = 0.0072)"
  by (simp add: recipe_mw_def J3_def J4_def J6_def J7_def J9_def J10_def J13_def Q10_def)

theorem hydrate_molar_masses_witness:
  "D12 (recipe_mw [''MgCl2'' \<mapsto> Str ''Hexahydrate'', ''CaCl2'' \<mapsto> Str ''Dihydrate'',
       ''MgSO4'' \<mapsto> Str ''Heptahydrate'', ''Na2SO4'' \<mapsto> Str ''Decahydrate'']) = 203.30268 \<and>
   D13 (recipe_mw [''MgCl2'' \<mapsto> Str ''Hexahydrate'', ''CaCl2'' \<mapsto> Str ''Dihydrate'',
       ''MgSO4'' \<mapsto> Str ''Heptahydrate'', ''Na2SO4'' \<mapsto> Str ''Decahydrate'']) = 147.01456 \<and>
   D15 (recipe_mw [''MgCl2'' \<mapsto> Str ''Hexahydrate'', ''CaCl2'' \<mapsto> Str ''Dihydrate'',
       ''MgSO4'' \<mapsto> Str ''Heptahydrate'', ''Na2SO4'' \<mapsto> Str ''Decahydrate'']) = 246.47296 \<and>
   D18 (recipe_mw [''MgCl2'' \<mapsto> Str ''Hexahydrate'', ''CaCl2'' \<mapsto> Str ''Dihydrate'',
       ''MgSO4'' \<mapsto> Str ''Heptahydrate'', ''Na2SO4'' \<mapsto> Str ''Decahydrate'']) = 322.2"
  using hydrate_molar_masses [of "[''MgCl2'' \<mapsto> Str ''Hexahydrate'', ''CaCl2'' \<mapsto> Str ''Dihydrate'',
       ''MgSO4'' \<mapsto> Str ''Heptahydrate'', ''Na2SO4'' \<mapsto> Str ''Decahydrate'']"]
  by (simp add: is_anhydrous_def get_default_def)

subsection \<open>Boron speciation ratio\<close>

lemma or0_field:
  "field_ok (row k) \<Longrightarrow> or0 (get_default row k (Num 0)) = Num (molality row k)"
  by (auto simp: field_ok_def or0_def get_default_def molality_def split: option.splits pyval.splits)

lemma boron_fields_okD:
  assumes "boron_fields_ok row"
  shows "field_ok (row ''m_B(OH)3(mol/kgw)'')" "field_ok (row ''m_B(OH)4-(mol/kgw)'')"
    "field_ok (row ''m_B3O3(OH)4-(mol/kgw)'')" "field_ok (row ''m_B4O5(OH)4-2(mol/kgw)'')"
    "field_ok (row ''m_MgB(OH)4+(mol/kgw)'')" "field_ok (row ''m_CaB(OH)4+(mol/kgw)'')"
  using assms by (simp_all add: boron_fields_ok_def boron_keys_def)

lemma b4b3_ratio_ok:
  assumes "boron_fields_ok row"
  shows "b4b3_ratio row = Inr (boron_ratio row)"
  unfolding b4b3_ratio_def boron_ratio_def Let_def
  using boron_fields_okD [OF assms] by (simp add: or0_field py_div_def add_ac)

text \<open>
  Claim C5. For every result row whose six boron fields are each absent, numeric, None
  or empty, \<^verbatim>\<open>b4b3_ratio\<close> returns the specification's ratio: numerator
  \<open>B(OH)4 + MgB(OH)4 + CaB(OH)4 + B3O3(OH)4 + 2 B4O5(OH)4\<close> over denominator
  \<open>B(OH)3 + 2 B3O3(OH)4 + 2 B4O5(OH)4\<close> when the denominator exceeds \<open>1e-30\<close>,
  else 0, a missing field counting as 0. A row with B(OH)3 = 1, B(OH)4 = 1 and the
  other species 0 gives 1; an all-zero row, and a row with no field at all, give 0.
\<close>

theorem b4b3_ratio_formula:
  "(boron_fields_ok row \<longrightarrow> b4b3_ratio row = Inr (boron_ratio row)) \<and>
   b4b3_ratio [''m_B(OH)3(mol/kgw)'' \<mapsto> Num 1, ''m_B(OH)4-(mol/kgw)'' \<mapsto> Num 1,
       ''m_B3O3(OH)4-(mol/kgw)'' \<mapsto> Num 0, ''m_B4O5(OH)4-2(mol/kgw)'' \<mapsto> Num 0,
       ''m_MgB(OH)4+(mol/kgw)'' \<mapsto> Num 0, ''m_CaB(OH)4+(mol/kgw)'' \<mapsto> Num 0] = Inr 1 \<and>
   b4b3_ratio [''m_B(OH)3(mol/kgw)'' \<mapsto> Num 0, ''m_B(OH)4-(mol/kgw)'' \<mapsto> Num 0,
       ''m_B3O3(OH)4-(mol/kgw)'' \<mapsto> Num 0, ''m_B4O5(OH)4-2(mol/kgw)'' \<mapsto> Num 0,
       ''m_MgB(OH)4+(mol/kgw)'' \<mapsto> Num 0, ''m_CaB(OH)4+(mol/kgw)'' \<mapsto> Num 0] = Inr 0 \<and>
   b4b3_ratio Map.empty = Inr 0"
proof (intro conjI impI)
  show "b4b3_ratio [''m_B(OH)3(mol/kgw)'' \<mapsto> Num 1, ''m_B(OH)4-(mol/kgw)'' \<mapsto> Num 1,
       ''m_B3O3(OH)4-(mol/kgw)'' \<mapsto> Num 0, ''m_B4O5(OH)4-2(mol/kgw)'' \<mapsto> Num 0,
       ''m_MgB(OH)4+(mol/kgw)'' \<mapsto> Num 0, ''m_CaB(OH)4+(mol/kgw)'' \<mapsto> Num 0] = Inr 1"
    by (simp add: b4b3_ratio_def get_default_def or0_def py_div_def)
  show "b4b3_ratio [''m_B(OH)3(mol/kgw)'' \<mapsto> Num 0, ''m_B(OH)4-(mol/kgw)'' \<mapsto> Num 0,
       ''m_B3O3(OH)4-(mol/kgw)'' \<mapsto> Num 0, ''m_B4O5(OH)4-2(mol/kgw)'' \<mapsto> Num 0,
       ''m_MgB(OH)4+(mol/kgw)'' \<mapsto> Num 0, ''m_CaB(OH)4+(mol/kgw)'' \<mapsto> Num 0] = Inr 0"
    by (simp add: b4b3_ratio_def get_default_def or0_def py_div_def)
  show "b4b3_ratio Map.empty = Inr 0"
    by (simp add: b4b3_ratio_def get_default_def or0_def py_div_def)
qed (rule b4b3_ratio_ok)

theorem b4b3_ratio_formula_witness:
  "b4b3_ratio [''m_B(OH)3(mol/kgw)'' \<mapsto> Num 2, ''m_B(OH)4-(mol/kgw)'' \<mapsto> Num 3,
       ''m_B4O5(OH)4-2(mol/kgw)'' \<mapsto> Num 1, ''m_CaB(OH)4+(mol/kgw)'' \<mapsto> Str []] = Inr (5 / 4)"
proof -
  let ?row = "[''m_B(OH)3(mol/kgw)'' \<mapsto> Num 2, ''m_B(OH)4-(mol/kgw)'' \<mapsto> Num 3,
       ''m_B4O5(OH)4-2(mol/kgw)'' \<mapsto> Num 1, ''m_CaB(OH)4+(mol/kgw)'' \<mapsto> Str []]"
  have ok: "boron_fields_ok ?row"
    by (simp add: boron_fields_ok_def boron_keys_def field_ok_def)
  have "boron_ratio ?row = 5 / 4"
    by (simp add: boron_ratio_def molality_def)
  with ok b4b3_ratio_formula [of ?row] show ?thesis by simp
qed

text \<open>The ratio is computed exactly for the rows whose boron fields are absent, numeric or empty; any other row raises TypeError.\<close>

lemma py_add_InrD:
  "py_add a b = Inr c \<Longrightarrow>
     (\<exists>x y. a = Num x \<and> b = Num y \<and> c = Num (x + y)) \<or> (\<exists>s t. a = Str s \<and> b = Str t \<and> c = Str (s @ t))"
  by (cases a; cases b) auto

lemma py_gt_InrD: "py_gt a b = Inr c \<Longrightarrow> \<exists>x. a = Num x"
  by (cases a) auto

lemma bind_err_InrD: "bind_err m f = Inr y \<Longrightarrow> \<exists>x. m = Inr x \<and> f x = Inr y"
  by (cases m) (auto simp: bind_err_def)

lemma or0_Num_field: "or0 (get_default row k (Num 0)) = Num x \<Longrightarrow> field_ok (row k)"
  by (auto simp: or0_def get_default_def field_ok_def split: option.splits pyval.splits if_splits)

lemma b4b3_ratio_returns_iff: "(\<exists>q. b4b3_ratio row = Inr q) \<longleftrightarrow> boron_fields_ok row"
proof
  assume "\<exists>q. b4b3_ratio row = Inr q"
  then obtain q where q: "b4b3_ratio row = Inr q" ..
  define bL where "bL = or0 (get_default row ''m_B(OH)3(mol/kgw)'' (Num 0))"
  define bM where "bM = or0 (get_default row ''m_B(OH)4-(mol/kgw)'' (Num 0))"
  define bN where "bN = or0 (get_default row ''m_B3O3(OH)4-(mol/kgw)'' (Num 0))"
  define bO where "bO = or0 (get_default row ''m_B4O5(OH)4-2(mol/kgw)'' (Num 0))"
  define bP where "bP = or0 (get_default row ''m_MgB(OH)4+(mol/kgw)'' (Num 0))"
  define bQ where "bQ = or0 (get_default row ''m_CaB(OH)4+(mol/kgw)'' (Num 0))"
  note defs = bL_def bM_def bN_def bO_def bP_def bQ_def
  from q obtain n1 n2 n3 n4 num d1 d2 d3 den c where
    a: "py_add bM bP = Inr n1" "py_add n1 bQ = Inr n2" "py_add n2 bN = Inr n3"
       "py_add n3 bO = Inr n4" "py_add n4 bO = Inr num"
       "py_add bL bN = Inr d1" "py_add d1 bN = Inr d2" "py_add d2 bO = Inr d3" "py_add d3 bO = Inr den"
       "py_gt den (1 / 10 ^ 30) = Inr c"
    unfolding b4b3_ratio_def Let_def defs [symmetric]
    by (blast dest!: bind_err_InrD)
  from a(10) obtain x where "den = Num x" by (blast dest: py_gt_InrD)
  with a(9) obtain xo where bO: "bO = Num xo" and "\<exists>y. d3 = Num y" by (auto dest!: py_add_InrD)
  with a(8) have "\<exists>y. d2 = Num y" by (auto dest!: py_add_InrD)
  with a(7) obtain xn where bN: "bN = Num xn" and "\<exists>y. d1 = Num y" by (auto dest!: py_add_InrD)
  with a(6) obtain xl where bL: "bL = Num xl" by (auto dest!: py_add_InrD)
  from a(5) bO have "\<exists>y. n4 = Num y" by (auto dest!: py_add_InrD)
  with a(4) have "\<exists>y. n3 = Num y" by (auto dest!: py_add_InrD)
  with a(3) have "\<exists>y. n2 = Num y" by (auto dest!: py_add_InrD)
  with a(2) obtain xq where bQ: "bQ = Num xq" and "\<exists>y. n1 = Num y" by (auto dest!: py_add_InrD)
  with a(1) obtain xm xp where bM: "bM = Num xm" and bP: "bP = Num xp" by (auto dest!: py_add_InrD)
  show "boron_fields_ok row"
    unfolding boron_fields_ok_def boron_keys_def
    using bL bM bN bO bP bQ unfolding defs
    by (auto dest: or0_Num_field)
next
  assume "boron_fields_ok row"
  then show "\<exists>q. b4b3_ratio row = Inr q" by (simp add: b4b3_ratio_ok)
qed

subsection \<open>Result classifier\<close>

lemma length_cumulative_volumes [simp]: "length (cumulative_volumes s v n) = n"
  by (induction n arbitrary: v) simp_all

lemma cumulative_volumes_nth:
  "i < n \<Longrightarrow> cumulative_volumes s v n ! i =
     py_round ((if i = 0 then v else cumulative_volumes s v n ! (i - 1)) + s) 8"
proof (induction n arbitrary: v i)
  case 0
  then show ?case by simp
next
  case (Suc n)
  show ?case
  proof (cases i)
    case 0
    then show ?thesis by simp
  next
    case (Suc j)
    with Suc.prems have "j < n" by simp
    from Suc.IH [OF this, of "py_round (v + s) 8"] Suc show ?thesis
      by (cases j) simp_all
  qed
qed

lemma cumulative_volumes_sorted:
  assumes "1 / (2 * 10 ^ 8) < s"
  shows "sorted_wrt (<) (v # cumulative_volumes s v n)"
proof (induction n arbitrary: v)
  case 0
  then show ?case by simp
next
  case (Suc n)
  have "\<bar>py_round (v + s) 8 - (v + s)\<bar> \<le> 1 / (2 * 10 ^ 8)" by (rule py_round_error)
  with assms have lt: "v < py_round (v + s) 8" by linarith
  from Suc [of "py_round (v + s) 8"] lt show ?case by auto
qed

lemma cumulative_volumes_stuck:
  "py_round (v + s) 8 = v \<Longrightarrow> cumulative_volumes s v n = replicate n v"
  by (induction n) simp_all

lemma map_V_titration_points:
  "map V_NaOH (titration_points s v rows) = cumulative_volumes s v (length rows)"
  by (induction rows arbitrary: v) simp_all

lemma length_titration_points [simp]: "length (titration_points s v rows) = length rows"
  by (induction rows arbitrary: v) simp_all

lemma titration_points_nth:
  "i < length rows \<Longrightarrow>
     t_pH (titration_points s v rows ! i) = row_pH (rows ! i) \<and>
     B4B3 (titration_points s v rows ! i) = py_round (boron_ratio (rows ! i)) 7 \<and>
     t_state (titration_points s v rows ! i) = ''react''"
proof (induction rows arbitrary: v i)
  case Nil
  then show ?case by simp
next
  case (Cons row rows)
  then show ?case by (cases i) simp_all
qed

lemma round_pH_ok: "row_ok row \<Longrightarrow> round_pH (row ''pH'') = Inr (row_pH row)"
  by (auto simp: row_ok_def round_pH_def row_pH_def split: option.splits pyval.splits)

lemma classify_row_i_soln:
  "row_ok row \<Longrightarrow> row_state row = Str ''i_soln'' \<Longrightarrow> classify_row s st row = Inr st"
  by (simp add: classify_row_def row_state_def row_ok_def b4b3_ratio_ok)

lemma classify_row_skip:
  "row_ok row \<Longrightarrow> row_state row = Str ''react'' \<Longrightarrow> react_count st + 1 \<le> 2 \<Longrightarrow>
     classify_row s st row = Inr (st\<lparr> react_count := react_count st + 1 \<rparr>)"
  by (simp add: classify_row_def row_state_def row_ok_def b4b3_ratio_ok)

lemma classify_row_keep:
  "row_ok row \<Longrightarrow> row_state row = Str ''react'' \<Longrightarrow> 2 \<le> react_count st \<Longrightarrow>
     classify_row s st row =
       Inr (st\<lparr> react_count := react_count st + 1, naoh_vol := py_round (naoh_vol st + s) 8,
                titration := titration st @
                  [\<lparr> t_state = ''react'', V_NaOH = py_round (naoh_vol st + s) 8,
                     t_pH = row_pH row, B4B3 = py_round (boron_ratio row) 7 \<rparr>] \<rparr>)"
  by (simp add: classify_row_def row_state_def round_pH_ok Let_def)
     (simp add: row_ok_def b4b3_ratio_ok)

lemma classify_rows_keep:
  "list_all row_ok rows \<Longrightarrow> list_all (\<lambda>row. row_state row = Str ''react'') rows \<Longrightarrow>
   2 \<le> react_count st \<Longrightarrow>
   \<exists>st'. classify_rows s st rows = Inr st' \<and>
         titration st' = titration st @ titration_points s (naoh_vol st) rows"
proof (induction rows arbitrary: st)
  case Nil
  then show ?case by simp
next
  case (Cons row rows)
  let ?st1 = "st\<lparr> react_count := react_count st + 1, naoh_vol := py_round (naoh_vol st + s) 8,
                titration := titration st @
                  [\<lparr> t_state = ''react'', V_NaOH = py_round (naoh_vol st + s) 8,
                     t_pH = row_pH row, B4B3 = py_round (boron_ratio row) 7 \<rparr>] \<rparr>"
  from Cons.prems have step: "classify_row s st row = Inr ?st1"
    by (simp add: classify_row_keep)
  from Cons.prems have "\<exists>st'. classify_rows s ?st1 rows = Inr st' \<and>
         titration st' = titration ?st1 @ titration_points s (naoh_vol ?st1) rows"
    by (intro Cons.IH) simp_all
  with step show ?case by auto
qed

lemma classify_rows_titration:
  assumes "row_state r0 = Str ''i_soln''" "row_state r1 = Str ''react''"
    "row_state r2 = Str ''react''" "list_all (\<lambda>row. row_state row = Str ''react'') rs"
    "list_all row_ok (r0 # r1 # r2 # rs)"
  shows "\<exists>st. classify_rows s loop_init (r0 # r1 # r2 # rs) = Inr st \<and>
           titration st = titration_points s 0 rs"
proof -
  let ?st2 = "loop_init\<lparr> react_count := 1 \<rparr>\<lparr> react_count := 2 \<rparr>"
  have 0: "classify_row s loop_init r0 = Inr loop_init"
    using assms by (simp add: classify_row_i_soln)
  have 1: "classify_row s loop_init r1 = Inr (loop_init\<lparr> react_count := 1 \<rparr>)"
    using assms classify_row_skip [of r1 loop_init s] by (simp add: loop_init_def)
  have 2: "classify_row s (loop_init\<lparr> react_count := 1 \<rparr>) r2 = Inr ?st2"
    using assms classify_row_skip [of r2 "loop_init\<lparr> react_count := 1 \<rparr>" s] by simp
  have "\<exists>st'. classify_rows s ?st2 rs = Inr st' \<and>
         titration st' = titration ?st2 @ titration_points s (naoh_vol ?st2) rs"
    using assms by (intro classify_rows_keep) simp_all
  then show ?thesis using 0 1 2 by (simp add: loop_init_def)
qed

text \<open>
  Claim C6, amended. Given a solver output of one initial-solution row, two reaction rows
  and then 20 reaction rows (rows the classifier can process), the classifier with step
  \<open>NaOH_vol / 20\<close> discards the first three rows and returns exactly 20 titration
  points, one per remaining row in order. Their cumulative volumes are the running sum
  rounded to 8 decimals: each is \<open>round(previous + NaOH_vol / 20, 8)\<close>, starting from 0,
  so each increment is within \<open>0.5e-8\<close> of \<open>NaOH_vol / 20\<close>; and they are strictly
  increasing whenever \<open>NaOH_vol > 1e-7\<close>.
\<close>

theorem classify_titration:
  assumes "row_state r0 = Str ''i_soln''" "row_state r1 = Str ''react''"
    "row_state r2 = Str ''react''" "list_all (\<lambda>row. row_state row = Str ''react'') rs"
    "list_all row_ok (r0 # r1 # r2 # rs)" "length rs = 20"
  shows "\<exists>st. classify_rows (NaOH_vol / 20) loop_init (r0 # r1 # r2 # rs) = Inr st \<and>
     length (titration st) = 20 \<and>
     (\<forall>i<20. V_NaOH (titration st ! i) =
        py_round ((if i = 0 then 0 else V_NaOH (titration st ! (i - 1))) + NaOH_vol / 20) 8) \<and>
     (\<forall>i<20. \<bar>V_NaOH (titration st ! i) - (if i = 0 then 0 else V_NaOH (titration st ! (i - 1)))
               - NaOH_vol / 20\<bar> \<le> 1 / (2 * 10 ^ 8)) \<and>
     (1 / 10 ^ 7 < NaOH_vol \<longrightarrow> sorted_wrt (<) (map V_NaOH (titration st))) \<and>
     (\<forall>i<20. t_pH (titration st ! i) = row_pH (rs ! i) \<and>
             B4B3 (titration st ! i) = py_round (boron_ratio (rs ! i)) 7)"
proof -
  let ?s = "NaOH_vol / 20"
  from classify_rows_titration [OF assms(1-5), of ?s] obtain st where
    st: "classify_rows ?s loop_init (r0 # r1 # r2 # rs) = Inr st"
    and t: "titration st = titration_points ?s 0 rs"
    by blast
  have len: "length (titration st) = 20" using t assms(6) by simp
  have V: "map V_NaOH (titration st) = cumulative_volumes ?s 0 20"
    using t assms(6) by (simp add: map_V_titration_points)
  have Vn: "V_NaOH (titration st ! i) = cumulative_volumes ?s 0 20 ! i" if "i < 20" for i
    using that len V by (metis nth_map)
  have rec: "V_NaOH (titration st ! i) =
        py_round ((if i = 0 then 0 else V_NaOH (titration st ! (i - 1))) + ?s) 8" if "i < 20" for i
  proof -
    have "i - 1 < 20" using that by simp
    then show ?thesis
      using cumulative_volumes_nth [OF that, of ?s 0] Vn [OF that] Vn [of "i - 1"] by simp
  qed
  have err: "\<bar>V_NaOH (titration st ! i) - (if i = 0 then 0 else V_NaOH (titration st ! (i - 1)))
               - ?s\<bar> \<le> 1 / (2 * 10 ^ 8)" if "i < 20" for i
    using py_round_error [of "(if i = 0 then 0 else V_NaOH (titration st ! (i - 1))) + ?s" 8]
      rec [OF that] by (simp add: algebra_simps)
  have sorted: "sorted_wrt (<) (map V_NaOH (titration st))" if "1 / 10 ^ 7 < NaOH_vol"
  proof -
    from that have "1 / (2 * 10 ^ 8) < ?s" by simp
    from cumulative_volumes_sorted [OF this, of 0 20] show ?thesis unfolding V by simp
  qed
  have rows: "t_pH (titration st ! i) = row_pH (rs ! i) \<and>
             B4B3 (titration st ! i) = py_round (boron_ratio (rs ! i)) 7" if "i < 20" for i
    using titration_points_nth [of i rs ?s 0] that assms(6) t by simp
  from st len rec err sorted rows show ?thesis by blast
qed

lemma example_rows_split: "example_rows = i_soln_row # react_row # react_row # replicate 20 react_row"
proof -
  have "replicate (2 + 20) react_row = replicate 2 react_row @ replicate 20 react_row"
    by (rule replicate_add)
  moreover have "(2::nat) + 20 = 22" by simp
  moreover have "replicate 2 react_row = [react_row, react_row]"
    by (simp add: numeral_2_eq_2)
  ultimately have "replicate 22 react_row = react_row # react_row # replicate 20 react_row"
    by simp
  then show ?thesis by (simp only: example_rows_def)
qed

lemma example_rows_ok:
  "row_state i_soln_row = Str ''i_soln''" "row_state react_row = Str ''react''"
  "list_all (\<lambda>row. row_state row = Str ''react'') (replicate 20 react_row)"
  "list_all row_ok (i_soln_row # react_row # react_row # replicate 20 react_row)"
proof -
  show i: "row_state i_soln_row = Str ''i_soln''"
    by (simp add: row_state_def i_soln_row_def get_default_def)
  show r: "row_state react_row = Str ''react''"
    by (simp add: row_state_def react_row_def get_default_def)
  show "list_all (\<lambda>row. row_state row = Str ''react'') (replicate 20 react_row)"
    using r by (simp add: list_all_iff)
  have "row_ok i_soln_row"
    by (simp add: i_soln_row_def row_ok_def boron_fields_ok_def boron_keys_def field_ok_def)
  moreover have "row_ok react_row"
    by (simp add: react_row_def row_ok_def boron_fields_ok_def boron_keys_def field_ok_def)
  ultimately show "list_all row_ok (i_soln_row # react_row # react_row # replicate 20 react_row)"
    by (simp add: list_all_iff)
qed

theorem classify_titration_witness:
  "\<exists>st. classify_rows (2 / 20) loop_init example_rows = Inr st \<and>
     length (titration st) = 20 \<and>
     V_NaOH (titration st ! 0) = 0.1 \<and>
     sorted_wrt (<) (map V_NaOH (titration st))"
proof -
  from classify_titration [OF example_rows_ok(1,2,2,3,4), of 2]
  obtain st where st: "classify_rows (2 / 20) loop_init example_rows = Inr st"
    "length (titration st) = 20"
    "\<forall>i<20. V_NaOH (titration st ! i) =
        py_round ((if i = 0 then 0 else V_NaOH (titration st ! (i - 1))) + 2 / 20) 8"
    "1 / 10 ^ 7 < (2::real) \<longrightarrow> sorted_wrt (<) (map V_NaOH (titration st))"
    unfolding example_rows_split by auto
  have "V_NaOH (titration st ! 0) = py_round (0 + 2 / 20) 8" using st(3) by simp
  also have "\<dots> = 0.1" by (simp add: py_round_def round_half_even_def)
  finally have "V_NaOH (titration st ! 0) = 0.1" .
  moreover have "sorted_wrt (<) (map V_NaOH (titration st))" using st(4) by simp
  ultimately show ?thesis using st(1,2) by blast
qed

text \<open>
  Claim C6, as stated, fails: for the positive base volume \<open>NaOH_vol = 1e-9\<close> and the
  example output (1 initial-solution row, 2 + 20 reaction rows) the 20 cumulative
  volumes are all 0, hence not strictly increasing.
\<close>

theorem tiny_base_volume_not_increasing:
  "\<exists>st. classify_rows (0.000000001 / 20) loop_init example_rows = Inr st \<and>
     map V_NaOH (titration st) = replicate 20 0 \<and>
     \<not> sorted_wrt (<) (map V_NaOH (titration st))"
proof -
  let ?s = "0.000000001 / 20 :: real"
  from classify_rows_titration [OF example_rows_ok(1,2,2,3,4), of ?s]
  obtain st where st: "classify_rows ?s loop_init example_rows = Inr st"
    and t: "titration st = titration_points ?s 0 (replicate 20 react_row)"
    unfolding example_rows_split by auto
  have "py_round (0 + ?s) 8 = 0" by (simp add: py_round_def round_half_even_def)
  then have "cumulative_volumes ?s 0 20 = replicate 20 0"
    by (rule cumulative_volumes_stuck)
  then have V: "map V_NaOH (titration st) = replicate 20 0"
    using t by (simp add: map_V_titration_points)
  have "\<not> sorted_wrt (<) (replicate 20 (0::real))"
    by (simp add: eval_nat_numeral)
  with st V show ?thesis by auto
qed

subsection \<open>Script generator\<close>

lemma script_salts_Inr:
  assumes "ion ''Na'' = Some na" "ion ''K'' = Some k" "ion ''Li'' = Some li"
    "ion ''Mg'' = Some mg" "ion ''Ca'' = Some ca" "ion ''SO4'' = Some sul"
  shows "script_salts ion =
    Inr \<lparr> C12 = max 0 (mg - sul * (if sul > mg then 0 else 1)),
          C13 = max 0 ca, C14 = max 0 li,
          C15 = max 0 sul * (if sul > mg then 0 else 1),
          C16 = max 0 (na - 2 * sul * (if sul > mg then 1 else 0)),
          C17 = max 0 k,
          C18 = max 0 sul * (if sul > mg then 1 else 0) \<rparr>"
  using assms by (simp add: script_salts_def)

lemma py_div_nonzero [simp]: "b \<noteq> 0 \<Longrightarrow> py_div a b = Inr (a / b)"
  by (simp add: py_div_def)

lemma py_div_zero [simp]: "py_div a 0 = Inl ZeroDivisionError"
  by (simp add: py_div_def)

lemma build_phreeqc_input_Inr:
  assumes "script_salts ion = Inr s"
    "params ''H3BO3_conc'' = Some hc" "params ''sample_vol'' = Some sv"
    "params ''H3BO3_vol'' = Some hv" "params ''NaOH_conc'' = Some nc"
    "params ''NaOH_vol'' = Some nv"
    "hc \<noteq> 0" "nc \<noteq> 0" "sv * wm \<noteq> 0"
  shows "build_phreeqc_input ion params wm =
     Inr (script_preamble @ reaction1_block s @
          acid_block (55.5556 / hc) (hc * hv / (sv * wm / 1000)) @
          base_block (55.5556 / nc) (nc * nv / (sv * wm / 1000)) 20, 20)"
  using assms by (simp add: build_phreeqc_input_def Let_def)

lemma build_phreeqc_input_steps:
  "build_phreeqc_input ion params wm = Inr (pqi, n) \<Longrightarrow> n = 20"
  unfolding build_phreeqc_input_def Let_def
  by (auto dest!: bind_err_InrD)

lemma build_phreeqc_input_other_key:
  assumes "k \<notin> {''H3BO3_conc'', ''sample_vol'', ''H3BO3_vol'', ''NaOH_conc'', ''NaOH_vol''}"
  shows "build_phreeqc_input ion (params(k \<mapsto> v)) wm = build_phreeqc_input ion params wm"
proof -
  have g: "getitem (params(k \<mapsto> v)) ''H3BO3_conc'' = getitem params ''H3BO3_conc''"
    "getitem (params(k \<mapsto> v)) ''sample_vol'' = getitem params ''sample_vol''"
    "getitem (params(k \<mapsto> v)) ''H3BO3_vol'' = getitem params ''H3BO3_vol''"
    "getitem (params(k \<mapsto> v)) ''NaOH_conc'' = getitem params ''NaOH_conc''"
    "getitem (params(k \<mapsto> v)) ''NaOH_vol'' = getitem params ''NaOH_vol''"
    using assms by (auto simp: getitem_def)
  show ?thesis unfolding build_phreeqc_input_def g ..
qed

lemma str_int_20: "str_int 20 = ''20''"
  by (simp add: str_int_def nat_digits.simps digit_char_def)

lemma base_block_20:
  "base_block w m 20 =
     ''REACTION'' @ TAB @ ''2'' @ NL @
     TAB @ ''NaOH'' @ TAB @ ''1'' @ NL @
     TAB @ ''H2O'' @ TAB @ fmt_fixed 4 w @ NL @
     TAB @ fmt_fixed 8 m @ TAB @ ''millimoles'' @ TAB @ ''in '' @ TAB @ ''20'' @ TAB @ ''steps'' @ NL @
     NL"
  unfolding base_block_def str_int_20 ..

lemma acid_block_text:
  "acid_block w m =
     ''REACTION'' @ TAB @ ''2'' @ NL @
     TAB @ ''H3BO3'' @ TAB @ ''1'' @ NL @
     TAB @ ''H2O'' @ TAB @ fmt_fixed 3 w @ NL @
     TAB @ fmt_fixed 8 m @ TAB @ ''millimoles'' @ TAB @ ''in '' @ TAB @ ''1'' @ TAB @ ''steps'' @ NL @
     NL @
     ''SAVE'' @ TAB @ ''Solution'' @ TAB @ ''1'' @ NL @
     ''END'' @ NL @
     ''USE'' @ TAB @ ''Solution'' @ TAB @ ''1'' @ NL @
     NL"
  unfolding acid_block_def ..

lemma build_phreeqc_input_zero_divisor:
  assumes "script_salts ion = Inr s"
    "params ''H3BO3_conc'' = Some hc" "params ''sample_vol'' = Some sv"
    "params ''H3BO3_vol'' = Some hv" "params ''NaOH_conc'' = Some nc"
    "params ''NaOH_vol'' = Some nv"
    "hc = 0 \<or> nc = 0 \<or> sv * wm = 0"
  shows "build_phreeqc_input ion params wm = Inl ZeroDivisionError"
  using assms by (auto simp: build_phreeqc_input_def Let_def py_div_def)

text \<open>
  Claim C10, amended. For every ion input whose salts are computed and every titration
  parameter set: when both concentrations and \<open>sample_vol \<times> water_mass\<close> are non-zero,
  the script generator returns the script and the step count 20; the acid block of the
  script carries the water ratio \<open>55.5556 / H3BO3_conc\<close> and the amount
  \<open>H3BO3_conc \<times> H3BO3_vol / (sample_vol \<times> water_mass / 1000)\<close> in 1 step, and the base
  block carries \<open>55.5556 / NaOH_conc\<close> and
  \<open>NaOH_conc \<times> NaOH_vol / (sample_vol \<times> water_mass / 1000)\<close> in 20 steps. When a
  concentration or \<open>sample_vol \<times> water_mass\<close> is zero, the generator raises
  ZeroDivisionError and returns no script and no step count. A parameter other than the
  five that are read (a step size, the pH) does not change the result, and whenever the
  generator returns, on any input, the step count is 20.
\<close>

theorem script_base_titration_20_steps:
  assumes "script_salts ion = Inr s"
    "params ''H3BO3_conc'' = Some H3BO3_conc" "params ''sample_vol'' = Some sample_vol"
    "params ''H3BO3_vol'' = Some H3BO3_vol" "params ''NaOH_conc'' = Some NaOH_conc"
    "params ''NaOH_vol'' = Some NaOH_vol"
  shows
    "(H3BO3_conc \<noteq> 0 \<and> NaOH_conc \<noteq> 0 \<and> sample_vol * water_mass \<noteq> 0 \<longrightarrow>
        build_phreeqc_input ion params water_mass =
          Inr (script_preamble @ reaction1_block s @
               (''REACTION'' @ TAB @ ''2'' @ NL @
                TAB @ ''H3BO3'' @ TAB @ ''1'' @ NL @
                TAB @ ''H2O'' @ TAB @ fmt_fixed 3 (55.5556 / H3BO3_conc) @ NL @
                TAB @ fmt_fixed 8 (H3BO3_conc * H3BO3_vol / (sample_vol * water_mass / 1000)) @
                  TAB @ ''millimoles'' @ TAB @ ''in '' @ TAB @ ''1'' @ TAB @ ''steps'' @ NL @
                NL @
                ''SAVE'' @ TAB @ ''Solution'' @ TAB @ ''1'' @ NL @
                ''END'' @ NL @
                ''USE'' @ TAB @ ''Solution'' @ TAB @ ''1'' @ NL @
                NL) @
               (''REACTION'' @ TAB @ ''2'' @ NL @
                TAB @ ''NaOH'' @ TAB @ ''1'' @ NL @
                TAB @ ''H2O'' @ TAB @ fmt_fixed 4 (55.5556 / NaOH_conc) @ NL @
                TAB @ fmt_fixed 8 (NaOH_conc * NaOH_vol / (sample_vol * water_mass / 1000)) @
                  TAB @ ''millimoles'' @ TAB @ ''in '' @ TAB @ ''20'' @ TAB @ ''steps'' @ NL @
                NL), 20)) \<and>
     (H3BO3_conc = 0 \<or> NaOH_conc = 0 \<or> sample_vol * water_mass = 0 \<longrightarrow>
        build_phreeqc_input ion params water_mass = Inl ZeroDivisionError) \<and>
     (\<forall>k v. k \<notin> {''H3BO3_conc'', ''sample_vol'', ''H3BO3_vol'', ''NaOH_conc'', ''NaOH_vol''} \<longrightarrow>
        build_phreeqc_input ion (params(k \<mapsto> v)) water_mass =
        build_phreeqc_input ion params water_mass) \<and>
     (\<forall>ion' params' wm' pqi n. build_phreeqc_input ion' params' wm' = Inr (pqi, n) \<longrightarrow> n = 20)"
proof (intro conjI impI allI)
  assume "H3BO3_conc \<noteq> 0 \<and> NaOH_conc \<noteq> 0 \<and> sample_vol * water_mass \<noteq> 0"
  then have nz: "H3BO3_conc \<noteq> 0" "NaOH_conc \<noteq> 0" "sample_vol * water_mass \<noteq> 0" by simp_all
  show "build_phreeqc_input ion params water_mass =
          Inr (script_preamble @ reaction1_block s @
               (''REACTION'' @ TAB @ ''2'' @ NL @
                TAB @ ''H3BO3'' @ TAB @ ''1'' @ NL @
                TAB @ ''H2O'' @ TAB @ fmt_fixed 3 (55.5556 / H3BO3_conc) @ NL @
                TAB @ fmt_fixed 8 (H3BO3_conc * H3BO3_vol / (sample_vol * water_mass / 1000)) @
                  TAB @ ''millimoles'' @ TAB @ ''in '' @ TAB @ ''1'' @ TAB @ ''steps'' @ NL @
                NL @
                ''SAVE'' @ TAB @ ''Solution'' @ TAB @ ''1'' @ NL @
                ''END'' @ NL @
                ''USE'' @ TAB @ ''Solution'' @ TAB @ ''1'' @ NL @
                NL) @
               (''REACTION'' @ TAB @ ''2'' @ NL @
                TAB @ ''NaOH'' @ TAB @ ''1'' @ NL @
                TAB @ ''H2O'' @ TAB @ fmt_fixed 4 (55.5556 / NaOH_conc) @ NL @
                TAB @ fmt_fixed 8 (NaOH_conc * NaOH_vol / (sample_vol * water_mass / 1000)) @
                  TAB @ ''millimoles'' @ TAB @ ''in '' @ TAB @ ''20'' @ TAB @ ''steps'' @ NL @
                NL), 20)"
    unfolding build_phreeqc_input_Inr [OF assms nz] acid_block_text base_block_20 ..
next
  assume "H3BO3_conc = 0 \<or> NaOH_conc = 0 \<or> sample_vol * water_mass = 0"
  then show "build_phreeqc_input ion params water_mass = Inl ZeroDivisionError"
    by (rule build_phreeqc_input_zero_divisor [OF assms])
next
  fix k v
  assume "k \<notin> {''H3BO3_conc'', ''sample_vol'', ''H3BO3_vol'', ''NaOH_conc'', ''NaOH_vol''}"
  then show "build_phreeqc_input ion (params(k \<mapsto> v)) water_mass =
        build_phreeqc_input ion params water_mass"
    by (rule build_phreeqc_input_other_key)
next
  fix ion' params' wm' pqi n
  assume "build_phreeqc_input ion' params' wm' = Inr (pqi, n)"
  then show "n = 20" by (rule build_phreeqc_input_steps)
qed

lemma example_script_salts:
  "script_salts example_ion =
     Inr \<lparr> C12 = 2, C13 = 3, C14 = 5, C15 = 0, C16 = 86, C17 = 10, C18 = 7 \<rparr>"
  by (simp add: script_salts_def example_ion_def)

lemma example_params_lookup:
  "example_params ''H3BO3_conc'' = Some 0.4" "example_params ''sample_vol'' = Some 50"
  "example_params ''H3BO3_vol'' = Some 4" "example_params ''NaOH_conc'' = Some 1"
  "example_params ''NaOH_vol'' = Some 2"
  by (simp_all add: example_params_def)

lemma example_fmt:
  "fmt_fixed 3 (55.5556 / 0.4) = ''138.889''"
  "fmt_fixed 8 (0.4 * 4 / (50 * 0.95 / 1000)) = ''33.68421053''"
  "fmt_fixed 4 (55.5556 / 1) = ''55.5556''"
  "fmt_fixed 8 (1 * 2 / (50 * 0.95 / 1000)) = ''42.10526316''"
proof -
  show "fmt_fixed 3 (55.5556 / 0.4) = ''138.889''"
    by (simp add: fmt_fixed_def round_half_even_def nat_digits.simps frac_digits.simps digit_char_def)
  have "round_half_even (\<bar>0.4 * 4 / (50 * 0.95 / 1000)\<bar> * 10 ^ 8) = 3368421053"
    by (simp add: round_half_even_def)
  then show "fmt_fixed 8 (0.4 * 4 / (50 * 0.95 / 1000)) = ''33.68421053''"
    unfolding fmt_fixed_def Let_def
    by (simp add: nat_digits.simps frac_digits.simps digit_char_def)
  show "fmt_fixed 4 (55.5556 / 1) = ''55.5556''"
    by (simp add: fmt_fixed_def round_half_even_def nat_digits.simps frac_digits.simps digit_char_def)
  have "round_half_even (\<bar>1 * 2 / (50 * 0.95 / 1000)\<bar> * 10 ^ 8) = 4210526316"
    by (simp add: round_half_even_def)
  then show "fmt_fixed 8 (1 * 2 / (50 * 0.95 / 1000)) = ''42.10526316''"
    unfolding fmt_fixed_def Let_def
    by (simp add: nat_digits.simps frac_digits.simps digit_char_def)
qed

theorem script_base_titration_20_steps_witness:
  "build_phreeqc_input example_ion example_params 0.95 =
     Inr (script_preamble @
          reaction1_block \<lparr> C12 = 2, C13 = 3, C14 = 5, C15 = 0, C16 = 86, C17 = 10, C18 = 7 \<rparr> @
          (''REACTION'' @ TAB @ ''2'' @ NL @
           TAB @ ''H3BO3'' @ TAB @ ''1'' @ NL @
           TAB @ ''H2O'' @ TAB @ ''138.889'' @ NL @
           TAB @ ''33.68421053'' @ TAB @ ''millimoles'' @ TAB @ ''in '' @ TAB @ ''1'' @ TAB @ ''steps'' @ NL @
           NL @
           ''SAVE'' @ TAB @ ''Solution'' @ TAB @ ''1'' @ NL @
           ''END'' @ NL @
           ''USE'' @ TAB @ ''Solution'' @ TAB @ ''1'' @ NL @
           NL) @
          (''REACTION'' @ TAB @ ''2'' @ NL @
           TAB @ ''NaOH'' @ TAB @ ''1'' @ NL @
           TAB @ ''H2O'' @ TAB @ ''55.5556'' @ NL @
           TAB @ ''42.10526316'' @ TAB @ ''millimoles'' @ TAB @ ''in '' @ TAB @ ''20'' @ TAB @ ''steps'' @ NL @
           NL), 20)"
proof -
  have nz: "(0.4::real) \<noteq> 0 \<and> (1::real) \<noteq> 0 \<and> (50::real) * 0.95 \<noteq> 0" by simp
  from script_base_titration_20_steps [OF example_script_salts example_params_lookup, where water_mass = "0.95"] nz
  have "build_phreeqc_input example_ion example_params 0.95 =
     Inr (script_preamble @
          reaction1_block \<lparr> C12 = 2, C13 = 3, C14 = 5, C15 = 0, C16 = 86, C17 = 10, C18 = 7 \<rparr> @
          (''REACTION'' @ TAB @ ''2'' @ NL @
           TAB @ ''H3BO3'' @ TAB @ ''1'' @ NL @
           TAB @ ''H2O'' @ TAB @ fmt_fixed 3 (55.5556 / 0.4) @ NL @
           TAB @ fmt_fixed 8 (0.4 * 4 / (50 * 0.95 / 1000)) @
             TAB @ ''millimoles'' @ TAB @ ''in '' @ TAB @ ''1'' @ TAB @ ''steps'' @ NL @
           NL @
           ''SAVE'' @ TAB @ ''Solution'' @ TAB @ ''1'' @ NL @
           ''END'' @ NL @
           ''USE'' @ TAB @ ''Solution'' @ TAB @ ''1'' @ NL @
           NL) @
          (''REACTION'' @ TAB @ ''2'' @ NL @
           TAB @ ''NaOH'' @ TAB @ ''1'' @ NL @
           TAB @ ''H2O'' @ TAB @ fmt_fixed 4 (55.5556 / 1) @ NL @
           TAB @ fmt_fixed 8 (1 * 2 / (50 * 0.95 / 1000)) @
             TAB @ ''millimoles'' @ TAB @ ''in '' @ TAB @ ''20'' @ TAB @ ''steps'' @ NL @
           NL), 20)"
    by blast
  then show ?thesis unfolding example_fmt .
qed

text \<open>
  Claim C10, as stated, fails: for the example parameters with \<open>sample_vol = 0\<close> the
  script generator raises ZeroDivisionError and returns no step count.
\<close>

theorem zero_sample_volume_raises:
  "build_phreeqc_input example_ion (example_params(''sample_vol'' \<mapsto> 0)) 0.95 =
     Inl ZeroDivisionError"
proof -
  let ?p = "example_params(''sample_vol'' \<mapsto> 0)"
  have p: "?p ''H3BO3_conc'' = Some 0.4" "?p ''sample_vol'' = Some 0"
    "?p ''H3BO3_vol'' = Some 4" "?p ''NaOH_conc'' = Some 1" "?p ''NaOH_vol'' = Some 2"
    by (simp_all add: example_params_def)
  have z: "(0.4::real) = 0 \<or> (1::real) = 0 \<or> (0::real) * 0.95 = 0" by simp
  show ?thesis by (rule build_phreeqc_input_zero_divisor [OF example_script_salts p z])
qed

subsection \<open>Request handling\<close>

lemma to_mmol_kgw_InrD: "to_mmol_kgw x MW wm = Inr y \<Longrightarrow> wm \<noteq> 0"
  by (auto simp: to_mmol_kgw_def py_div_def split: if_splits)

lemma to_mmol_kgw_Inr: "wm \<noteq> 0 \<Longrightarrow> MW \<noteq> 0 \<Longrightarrow> to_mmol_kgw x MW wm = Inr (x / wm / MW)"
  by (simp add: to_mmol_kgw_def)

lemma parse_payload_InrD:
  assumes "parse_payload pf d = Inr (wm, ion, hyd)"
  shows "wm \<noteq> 0 \<and> (\<exists>na k li mg ca sul.
           ion = [''Na'' \<mapsto> na, ''K'' \<mapsto> k, ''Li'' \<mapsto> li, ''Mg'' \<mapsto> mg, ''Ca'' \<mapsto> ca, ''SO4'' \<mapsto> sul])"
proof -
  from assms obtain density tds tds_unit x na k li mg ca sul where
    wm: "wm = calc_water_mass density tds tds_unit"
    and na: "to_mmol_kgw x Q3 (calc_water_mass density tds tds_unit) = Inr na"
    and ion: "ion = [''Na'' \<mapsto> na, ''K'' \<mapsto> k, ''Li'' \<mapsto> li, ''Mg'' \<mapsto> mg, ''Ca'' \<mapsto> ca, ''SO4'' \<mapsto> sul]"
    unfolding parse_payload_def Let_def
    by (auto dest!: bind_err_InrD)
  from na wm have "wm \<noteq> 0" by (auto dest: to_mmol_kgw_InrD)
  with ion show ?thesis by blast
qed

lemma float_item_missing: "d k = None \<Longrightarrow> float_item pf d k = Inl (KeyError k)"
  by (simp add: float_item_def)

lemma float_item_Num: "d k = Some (Num x) \<Longrightarrow> float_item pf d k = Inr x"
  by (simp add: float_item_def)

lemma calculate_missing_B:
  assumes "parse_payload pf d = Inr (wm, ion, hyd)" "d ''B'' = None"
  shows "calculate pf run_phreeqc d = Inl (KeyError ''B'')"
  using assms by (simp add: calculate_def float_item_missing)

lemma calculate_missing_Br:
  assumes "parse_payload pf d = Inr (wm, ion, hyd)" "d ''B'' = Some (Num b)" "d ''Br'' = None"
  shows "calculate pf run_phreeqc d = Inl (KeyError ''Br'')"
proof -
  from parse_payload_InrD [OF assms(1)] have "wm \<noteq> 0" by simp
  then show ?thesis
    using assms by (simp add: calculate_def float_item_missing float_item_Num to_mmol_kgw_Inr)
qed

lemma recipe_route_Inr:
  assumes "parse_payload pf d = Inr (wm, ion, hyd)"
  shows "\<exists>rec. recipe_route pf d = Inr (rec, py_round wm 6)"
proof -
  from parse_payload_InrD [OF assms] obtain na k li mg ca sul where
    "ion = [''Na'' \<mapsto> na, ''K'' \<mapsto> k, ''Li'' \<mapsto> li, ''Mg'' \<mapsto> mg, ''Ca'' \<mapsto> ca, ''SO4'' \<mapsto> sul]"
    by blast
  then have "ion ''Na'' = Some na" "ion ''K'' = Some k" "ion ''Li'' = Some li"
    "ion ''Mg'' = Some mg" "ion ''Ca'' = Some ca" "ion ''SO4'' = Some sul"
    by simp_all
  from recipe_salts_Inr [OF this] obtain s where "recipe_salts ion = Inr s" by blast
  from build_recipe_Inr [OF this, of hyd] obtain rec where "build_recipe ion hyd = Inr rec"
    by blast
  with assms show ?thesis by (simp add: recipe_route_def)
qed

text \<open>
  \<^verbatim>\<open>B\<close> and \<^verbatim>\<open>Br\<close> are not read by \<^verbatim>\<open>parse_payload\<close>, and in \<^verbatim>\<open>/calculate\<close> their
  values reach only the displayed ion table: the titration, the recipe, the water mass and
  the step count do not depend on them.
\<close>

lemma float_item_upd_other: "k \<noteq> k' \<Longrightarrow> float_item pf (d(k \<mapsto> v)) k' = float_item pf d k'"
  by (simp add: float_item_def getitem_def)

lemma get_default_upd_other: "k \<noteq> k' \<Longrightarrow> get_default (d(k \<mapsto> v)) k' x = get_default d k' x"
  by (simp add: get_default_def)

lemma parse_payload_ignores_B_Br:
  "parse_payload pf (d(''B'' \<mapsto> v, ''Br'' \<mapsto> w)) = parse_payload pf d"
  unfolding parse_payload_def
  by (simp add: float_item_upd_other get_default_upd_other getitem_def)

lemma calculate_B_Br_display_only:
  assumes "calculate pf run_phreeqc (d(''B'' \<mapsto> Num b, ''Br'' \<mapsto> Num br)) = Inr resp"
  shows "\<exists>resp'. calculate pf run_phreeqc (d(''B'' \<mapsto> Num b', ''Br'' \<mapsto> Num br')) = Inr resp' \<and>
           r_titration resp' = r_titration resp \<and> r_recipe resp' = r_recipe resp \<and>
           r_water_mass resp' = r_water_mass resp \<and> r_n_steps resp' = r_n_steps resp"
proof -
  let ?d = "d(''B'' \<mapsto> Num b, ''Br'' \<mapsto> Num br)"
  let ?d' = "d(''B'' \<mapsto> Num b', ''Br'' \<mapsto> Num br')"
  from assms obtain x where px: "parse_payload pf ?d = Inr x"
    unfolding calculate_def by (auto dest!: bind_err_InrD)
  obtain wm ion hyd where x: "x = (wm, ion, hyd)" by (cases x) auto
  from px x have p: "parse_payload pf d = Inr (wm, ion, hyd)"
    by (simp add: parse_payload_ignores_B_Br)
  then have wm: "wm \<noteq> 0" using parse_payload_InrD by blast
  have fB: "float_item pf ?d ''B'' = Inr b" "float_item pf ?d ''Br'' = Inr br"
    "float_item pf ?d' ''B'' = Inr b'" "float_item pf ?d' ''Br'' = Inr br'"
    by (simp_all add: float_item_def)
  have other: "float_item pf ?d' k = float_item pf ?d k"
    if "k \<noteq> ''B''" "k \<noteq> ''Br''" for k
    using that by (simp add: float_item_def getitem_def)
  have o: "float_item pf ?d' ''H3BO3_conc'' = float_item pf ?d ''H3BO3_conc''"
    "float_item pf ?d' ''H3BO3_vol'' = float_item pf ?d ''H3BO3_vol''"
    "float_item pf ?d' ''sample_vol'' = float_item pf ?d ''sample_vol''"
    "float_item pf ?d' ''NaOH_conc'' = float_item pf ?d ''NaOH_conc''"
    "float_item pf ?d' ''NaOH_vol'' = float_item pf ?d ''NaOH_vol''"
    by (simp_all add: other)
  have g: "get_default ?d' ''pH'' (Num 8.5) = get_default ?d ''pH'' (Num 8.5)"
    by (simp add: get_default_def)
  have pp: "parse_payload pf ?d = Inr (wm, ion, hyd)" "parse_payload pf ?d' = Inr (wm, ion, hyd)"
    using p by (simp_all add: parse_payload_ignores_B_Br)
  from assms show ?thesis
    unfolding calculate_def pp fB o g
    by (auto simp: to_mmol_kgw_Inr wm Let_def dest!: bind_err_InrD)
qed

lemma example_payload_parses:
  "\<exists>ion hyd. parse_payload pf example_payload = Inr (0.95, ion, hyd)"
  by (simp add: parse_payload_def example_payload_def float_item_def calc_water_mass_def
      to_mmol_kgw_def py_div_def Q3_def Q4_def Q5_def Q6_def Q7_def Q8_def Let_def)

text \<open>
  Claim C7 says that a calculation with every required field present and numeric and
  the optional fields \<^verbatim>\<open>B\<close> and \<^verbatim>\<open>Br\<close> absent completes without a missing-field
  error. The code does not: for the example payload, which holds every required field
  as a number and neither \<^verbatim>\<open>B\<close> nor \<^verbatim>\<open>Br\<close>, \<^verbatim>\<open>/calculate\<close> answers with the
  missing-field error KeyError \<^verbatim>\<open>B\<close>, whatever the solver and the string parser.
\<close>

theorem calculate_without_B_fails:
  "calculate pf run_phreeqc example_payload = Inl (KeyError ''B'')"
proof -
  obtain ion hyd where "parse_payload pf example_payload = Inr (0.95, ion, hyd)"
    using example_payload_parses by blast
  moreover have "example_payload ''B'' = None" by (simp add: example_payload_def)
  ultimately show ?thesis by (rule calculate_missing_B)
qed

end
